theory Spec2Isabelle
  imports Complex_Main "HOL-Library.Word"
begin

section \<open>JavaScript strings\<close>

text \<open>
  A JavaScript string is a sequence of UTF-16 code units.  The regular expression class
  \<^verbatim>\<open>\s\<close> and \<^verbatim>\<open>String.prototype.trim\<close> use the same set of code units: the
  ECMAScript WhiteSpace and LineTerminator productions, all of which lie in the Basic
  Multilingual Plane.
\<close>

type_synonym jschar = "16 word"
type_synonym jsstring = "jschar list"

definition js :: "string \<Rightarrow> jsstring" where
  "js s = map (\<lambda>c. word_of_nat (of_char c)) s"

definition isWhiteSpace :: "jschar \<Rightarrow> bool" where
  "isWhiteSpace c \<longleftrightarrow>
     c = 0x09 \<or> c = 0x0A \<or> c = 0x0B \<or> c = 0x0C \<or> c = 0x0D \<or> c = 0x20 \<or> c = 0xA0 \<or>
     c = 0x1680 \<or> (0x2000 \<le> c \<and> c \<le> 0x200A) \<or> c = 0x2028 \<or> c = 0x2029 \<or>
     c = 0x202F \<or> c = 0x205F \<or> c = 0x3000 \<or> c = 0xFEFF"

text \<open>
  \<^verbatim>\<open>s.replace(/\s+/g, r)\<close>: scanning from the left, every maximal run of white space
  is replaced by \<open>r\<close>; every other code unit is kept.
\<close>

function replaceWhitespaceRuns :: "jsstring \<Rightarrow> jsstring \<Rightarrow> jsstring" where
  "replaceWhitespaceRuns r [] = []"
| "replaceWhitespaceRuns r (c # cs) =
     (if isWhiteSpace c then r @ replaceWhitespaceRuns r (dropWhile isWhiteSpace cs)
      else c # replaceWhitespaceRuns r cs)"
  by pat_completeness auto
termination
  by (relation "measure (\<lambda>(r, s). length s)") (auto simp: length_dropWhile_le le_imp_less_Suc)

text \<open>
  \<^verbatim>\<open>function sanitizeColumnName(name: string): string {
    return name.replace(/\s+/g, '_');
  }\<close>
\<close>

definition sanitizeColumnName :: "jsstring \<Rightarrow> jsstring" where
  "sanitizeColumnName name = replaceWhitespaceRuns [0x5F] name"

text \<open>\<^verbatim>\<open>s.trim()\<close> removes white space from both ends.\<close>

definition trim :: "jsstring \<Rightarrow> jsstring" where
  "trim s = rev (dropWhile isWhiteSpace (rev (dropWhile isWhiteSpace s)))"

text \<open>
  \<^verbatim>\<open>s.replace(/'/g, "''")\<close>: every single quote is doubled.
\<close>

definition escapeQuotes :: "jsstring \<Rightarrow> jsstring" where
  "escapeQuotes s = concat (map (\<lambda>c. if c = 0x27 then [0x27, 0x27] else [c]) s)"

text \<open>\<^verbatim>\<open>xs.join(sep)\<close> on an array of strings.\<close>

fun join :: "jsstring \<Rightarrow> jsstring list \<Rightarrow> jsstring" where
  "join sep [] = []"
| "join sep [x] = x"
| "join sep (x # y # ys) = x @ sep @ join sep (y # ys)"

text \<open>
  Decimal digits of a non-negative integer, as a template literal renders an
  integer-valued number below \<open>10\<^sup>2\<^sup>1\<close> and as \<^verbatim>\<open>BigInt.prototype.toString\<close> renders the
  magnitude of a bigint.
\<close>

function natToString :: "nat \<Rightarrow> jsstring" where
  "natToString n =
     (if n < 10 then [word_of_nat (48 + n)]
      else natToString (n div 10) @ [word_of_nat (48 + n mod 10)])"
  by pat_completeness auto
termination
  by (relation "measure id") auto

declare natToString.simps [simp del]

definition intToString :: "int \<Rightarrow> jsstring" where
  "intToString i = (if i < 0 then 0x2D # natToString (nat (- i)) else natToString (nat i))"

section \<open>JavaScript values\<close>

text \<open>
  A number is an IEEE double: not-a-number, an infinity, negative zero, or a finite value
  (every finite double is a rational; \<open>Fin 0\<close> is positive zero).  Objects other than the
  row objects below (arrays, dates, buffers, rich cells) are opaque references: the code
  only tests them for truthiness, converts them to text, or passes them on.
\<close>

datatype jsnum = NaN | PosInf | NegInf | NegZero | Fin rat

datatype jsval =
    JUndefined
  | JNull
  | JBool bool
  | JNum jsnum
  | JBigInt int
  | JStr jsstring
  | JObject nat

text \<open>
  ToBoolean: \<^verbatim>\<open>undefined\<close>, \<^verbatim>\<open>null\<close>, \<^verbatim>\<open>false\<close>, \<^verbatim>\<open>NaN\<close>, both zeros, \<^verbatim>\<open>0n\<close> and the
  empty string are falsy; every other value is truthy.
\<close>

fun truthy :: "jsval \<Rightarrow> bool" where
  "truthy JUndefined = False"
| "truthy JNull = False"
| "truthy (JBool b) = b"
| "truthy (JNum n) = (n \<noteq> NaN \<and> n \<noteq> NegZero \<and> n \<noteq> Fin 0)"
| "truthy (JBigInt i) = (i \<noteq> 0)"
| "truthy (JStr s) = (s \<noteq> [])"
| "truthy (JObject r) = True"

text \<open>\<^verbatim>\<open>a || b\<close>\<close>

definition orElse :: "jsval \<Rightarrow> jsval \<Rightarrow> jsval" where
  "orElse a b = (if truthy a then a else b)"

text \<open>
  Builtins of the platform that the code calls and whose results are not computed here:
  \<^verbatim>\<open>path.resolve\<close> (it depends on the working directory), the text of a finite number
  that is not an integer below \<open>10\<^sup>2\<^sup>1\<close>, and the text of an object.
\<close>

record jshost =
  pathResolve :: "jsstring \<Rightarrow> jsstring"
  fractionToString :: "rat \<Rightarrow> jsstring"
  objectToString :: "nat \<Rightarrow> jsstring"

definition numberToString :: "jshost \<Rightarrow> jsnum \<Rightarrow> jsstring" where
  "numberToString H n =
     (case n of
        NaN \<Rightarrow> js ''NaN''
      | PosInf \<Rightarrow> js ''Infinity''
      | NegInf \<Rightarrow> js ''-Infinity''
      | NegZero \<Rightarrow> js ''0''
      | Fin q \<Rightarrow>
          if of_int \<lfloor>q\<rfloor> = q \<and> \<bar>q\<bar> < 10 ^ 21 then intToString \<lfloor>q\<rfloor>
          else fractionToString H q)"

text \<open>\<^verbatim>\<open>String(v)\<close>\<close>

fun ToString :: "jshost \<Rightarrow> jsval \<Rightarrow> jsstring" where
  "ToString H JUndefined = js ''undefined''"
| "ToString H JNull = js ''null''"
| "ToString H (JBool b) = (if b then js ''true'' else js ''false'')"
| "ToString H (JNum n) = numberToString H n"
| "ToString H (JBigInt i) = intToString i"
| "ToString H (JStr s) = s"
| "ToString H (JObject r) = objectToString H r"

text \<open>
  \<^verbatim>\<open>Number(b)\<close> for a bigint \<open>b\<close>: the nearest double, ties to the even significand;
  magnitudes that round to \<open>2\<^sup>1\<^sup>0\<^sup>2\<^sup>4\<close> or more become an infinity.
\<close>

function bitLength :: "nat \<Rightarrow> nat" where
  "bitLength n = (if n = 0 then 0 else Suc (bitLength (n div 2)))"
  by pat_completeness auto
termination
  by (relation "measure id") auto

declare bitLength.simps [simp del]

definition roundToDouble :: "nat \<Rightarrow> nat" where
  "roundToDouble m =
     (if bitLength m \<le> 53 then m
      else let e = bitLength m - 53; q = m div 2 ^ e; r = m mod 2 ^ e; h = 2 ^ (e - 1)
           in (if h < r \<or> (r = h \<and> odd q) then q + 1 else q) * 2 ^ e)"

definition bigintToNumber :: "int \<Rightarrow> jsnum" where
  "bigintToNumber i =
     (let m = roundToDouble (nat \<bar>i\<bar>)
      in if 2 ^ 1024 \<le> m then (if i < 0 then NegInf else PosInf)
         else Fin (of_int (if i < 0 then - int m else int m)))"

section \<open>Errors and results\<close>

text \<open>
  An error raised by the platform or the query engine is an \<^verbatim>\<open>Error\<close> object with a
  message and, for system errors, a \<^verbatim>\<open>code\<close>.  The program itself raises
  \<^verbatim>\<open>TypeError\<close>s (a property read on \<^verbatim>\<open>undefined\<close>, a call of a missing method) and
  \<^verbatim>\<open>new Error(message)\<close>.
\<close>

datatype syserr = SysError (errCode: "jsstring option") (errMessage: jsstring)

datatype jserr = TypeError | Error jsstring | Host syserr

text \<open>
  A promise of the loader is rejected with an error, or an exception escapes from an
  engine callback, in which case the promise is never settled.
\<close>

datatype fault = Rejected jserr | Uncaught jserr

text \<open>
  \<^verbatim>\<open>interface PageData { columns: string[]; rows: any[][]; offset: number;
    limit: number; total: number; }\<close>
  Offsets and limits are the non-negative integers of a page request; \<open>total\<close> holds
  whatever value the code stores there.
\<close>

record PageData =
  columns :: "jsstring list"
  rows :: "jsval list list"
  offset :: nat
  limit :: nat
  total :: jsval

section \<open>The query engine\<close>

text \<open>
  A row returned by the engine is an object: its own keys in enumeration order, each with
  a value.  Reading a key that is absent gives \<^verbatim>\<open>undefined\<close> (properties inherited from
  \<^verbatim>\<open>Object.prototype\<close> are not modelled).

  The engine is a parameter: it maps a statement and a database state to a reply (an error
  or rows) and the next state.  A connection pairs the state with the list of statements
  sent so far, in order; the engine runs the statements of a connection one after the
  other, in the order in which they are sent.
\<close>

type_synonym row = "(jsstring \<times> jsval) list"
type_synonym 'db engine = "jsstring \<Rightarrow> 'db \<Rightarrow> (syserr + row list) \<times> 'db"
type_synonym 'db con = "'db \<times> jsstring list"

definition objectKeys :: "row \<Rightarrow> jsstring list" where
  "objectKeys r = map fst r"

definition getProp :: "row \<Rightarrow> jsstring \<Rightarrow> jsval" where
  "getProp r k = (case map_of r k of None \<Rightarrow> JUndefined | Some v \<Rightarrow> v)"

text \<open>\<^verbatim>\<open>con.all(q, callback)\<close> and \<^verbatim>\<open>con.run(q, callback)\<close>\<close>

definition con_all :: "'db engine \<Rightarrow> jsstring \<Rightarrow> 'db con \<Rightarrow> (syserr + row list) \<times> 'db con" where
  "con_all E q c = (case E q (fst c) of (r, d) \<Rightarrow> (r, (d, snd c @ [q])))"

definition con_run :: "'db engine \<Rightarrow> jsstring \<Rightarrow> 'db con \<Rightarrow> syserr option \<times> 'db con" where
  "con_run E q c =
     (case E q (fst c) of (r, d) \<Rightarrow> ((case r of Inl e \<Rightarrow> Some e | Inr rs \<Rightarrow> None), (d, snd c @ [q])))"

section \<open>Format detection\<close>

text \<open>
  \<^verbatim>\<open>path.extname\<close> in its POSIX form: trailing slashes are dropped, the last path
  component is taken, and the extension runs from its last dot to its end; it is empty
  when the component has no dot, starts with its only dot, or is \<^verbatim>\<open>..\<close>.
\<close>

definition extname :: "jsstring \<Rightarrow> jsstring" where
  "extname p =
     (let trimmed = rev (dropWhile (\<lambda>c. c = 0x2F) (rev p));
          base = rev (takeWhile (\<lambda>c. c \<noteq> 0x2F) (rev trimmed));
          afterDot = rev (takeWhile (\<lambda>c. c \<noteq> 0x2E) (rev base));
          stem = take (length base - length afterDot - 1) base
      in if 0x2E \<notin> set base \<or> stem = [] \<or> base = [0x2E, 0x2E] then []
         else 0x2E # afterDot)"

text \<open>
  \<^verbatim>\<open>s.toLowerCase()\<close>.  The letters A to Z are mapped to a to z.  Outside ASCII only the
  two code points whose lower case contains an ASCII letter are mapped (U+212A to \<^verbatim>\<open>k\<close>,
  U+0130 to \<^verbatim>\<open>i\<close> followed by U+0307); every other code unit is kept, which cannot
  change the outcome of a comparison with the ASCII extensions below.
\<close>

definition toLowerCase :: "jsstring \<Rightarrow> jsstring" where
  "toLowerCase s =
     concat (map (\<lambda>c. if 0x41 \<le> c \<and> c \<le> 0x5A then [c + 0x20]
                       else if c = 0x212A then [0x6B]
                       else if c = 0x0130 then [0x69, 0x0307]
                       else [c]) s)"

datatype fileType = Csv | Tsv | Parquet | Excel | Json | Xml

text \<open>
  \<^verbatim>\<open>function detectFileType(filePath: string) {
    const ext = path.extname(filePath).toLowerCase();
    if (ext === '.csv') return 'csv';
    if (ext === '.tsv') return 'tsv';
    if (ext === '.parquet' || ext === '.pq') return 'parquet';
    if (ext === '.xlsx' || ext === '.xls') return 'excel';
    if (ext === '.json') return 'json';
    if (ext === '.xml') return 'xml';
    return 'csv'; // default
  }\<close>
\<close>

definition detectFileType :: "jsstring \<Rightarrow> fileType" where
  "detectFileType filePath =
     (let ext = toLowerCase (extname filePath)
      in if ext = js ''.csv'' then Csv
         else if ext = js ''.tsv'' then Tsv
         else if ext = js ''.parquet'' \<or> ext = js ''.pq'' then Parquet
         else if ext = js ''.xlsx'' \<or> ext = js ''.xls'' then Excel
         else if ext = js ''.json'' then Json
         else if ext = js ''.xml'' then Xml
         else Csv)"

section \<open>Building the statement\<close>

text \<open>
  \<^verbatim>\<open>sql && sql.trim()\<close>, \<^verbatim>\<open>search && search.trim()\<close>: the optional argument is present
  and not empty after trimming.
\<close>

definition given :: "jsstring option \<Rightarrow> bool" where
  "given s = (case s of None \<Rightarrow> False | Some t \<Rightarrow> trim t \<noteq> [])"

text \<open>\<^verbatim>\<open>query = sql.replace(/\s+/g, ' ').trim();\<close>\<close>

definition customQuery :: "jsstring \<Rightarrow> jsstring" where
  "customQuery sql = trim (replaceWhitespaceRuns [0x20] sql)"

text \<open>\<^verbatim>\<open>const needle = search.trim().replace(/'/g, "''");\<close>\<close>

definition needleOf :: "jsstring \<Rightarrow> jsstring" where
  "needleOf search = escapeQuotes (trim search)"

text \<open>
  \<^verbatim>\<open>`${col} LIKE '%${needle}%'`\<close> in \<^verbatim>\<open>loadWithDuckDB\<close>, and
  \<^verbatim>\<open>`"${col}" LIKE '%${needle}%'`\<close> in \<^verbatim>\<open>loadWithExcelJS\<close> and \<^verbatim>\<open>loadWithXML\<close>.
\<close>

definition likeCondition :: "jsstring \<Rightarrow> jsstring \<Rightarrow> jsstring" where
  "likeCondition needle col = col @ js '' LIKE '' @ [0x27, 0x25] @ needle @ [0x25, 0x27]"

definition quotedLikeCondition :: "jsstring \<Rightarrow> jsstring \<Rightarrow> jsstring" where
  "quotedLikeCondition needle col =
     [0x22] @ col @ [0x22] @ js '' LIKE '' @ [0x27, 0x25] @ needle @ [0x25, 0x27]"

text \<open>\<^verbatim>\<open>`SELECT * FROM data WHERE ${conditions} LIMIT ${limit} OFFSET ${offset}`\<close>\<close>

definition searchQuery :: "jsstring \<Rightarrow> nat \<Rightarrow> nat \<Rightarrow> jsstring" where
  "searchQuery conditions pageLimit pageOffset =
     js ''SELECT * FROM data WHERE '' @ conditions @ js '' LIMIT '' @ natToString pageLimit @
     js '' OFFSET '' @ natToString pageOffset"

text \<open>\<^verbatim>\<open>`SELECT * FROM data LIMIT ${limit} OFFSET ${offset}`\<close>\<close>

definition plainQuery :: "nat \<Rightarrow> nat \<Rightarrow> jsstring" where
  "plainQuery pageLimit pageOffset =
     js ''SELECT * FROM data LIMIT '' @ natToString pageLimit @ js '' OFFSET '' @
     natToString pageOffset"

text \<open>
  The choice of the statement.  \<^verbatim>\<open>runQuery\<close> of \<^verbatim>\<open>loadWithExcelJS\<close> and of
  \<^verbatim>\<open>loadWithXML\<close> has this block as it stands; \<^verbatim>\<open>loadWithDuckDB\<close> makes the same
  choice, with another form of condition, around its describe probe:
  \<^verbatim>\<open>if (sql && sql.trim()) {
    query = sql.replace(/\s+/g, ' ').trim();
  } else {
    if (search && search.trim()) {
      const needle = search.trim().replace(/'/g, "''");
      const conditions = columns.map((col: string) => ...).join(' OR ');
      query = `SELECT * FROM data WHERE ${conditions} LIMIT ${limit} OFFSET ${offset}`;
    } else {
      query = `SELECT * FROM data LIMIT ${limit} OFFSET ${offset}`;
    }
  }\<close>
\<close>

definition buildQuery ::
  "(jsstring \<Rightarrow> jsstring \<Rightarrow> jsstring) \<Rightarrow> jsstring list \<Rightarrow> nat \<Rightarrow> nat \<Rightarrow> jsstring option \<Rightarrow>
   jsstring option \<Rightarrow> jsstring" where
  "buildQuery condition cols pageOffset pageLimit search sql =
     (if given sql then customQuery (the sql)
      else if given search then
        searchQuery (join (js '' OR '') (map (condition (needleOf (the search))) cols))
          pageLimit pageOffset
      else plainQuery pageLimit pageOffset)"

definition countQuery :: jsstring where
  "countQuery = js ''SELECT COUNT(*) as total FROM data''"

definition describeQuery :: jsstring where
  "describeQuery = js ''DESCRIBE data''"

section \<open>Shaping the result\<close>

text \<open>
  \<^verbatim>\<open>const total = typeof countRows[0].total === 'bigint'
      ? Number(countRows[0].total) : countRows[0].total;\<close>
  With no count row, reading \<^verbatim>\<open>countRows[0].total\<close> raises a \<^verbatim>\<open>TypeError\<close>.
\<close>

definition totalOf :: "row list \<Rightarrow> jsval option" where
  "totalOf countRows =
     (case countRows of
        [] \<Rightarrow> None
      | r # rs \<Rightarrow>
          Some (case getProp r (js ''total'') of JBigInt i \<Rightarrow> JNum (bigintToNumber i) | v \<Rightarrow> v))"

text \<open>\<^verbatim>\<open>typeof value === 'bigint' ? value.toString() : value\<close>\<close>

definition stringifyBigInt :: "jsval \<Rightarrow> jsval" where
  "stringifyBigInt v = (case v of JBigInt i \<Rightarrow> JStr (intToString i) | _ \<Rightarrow> v)"

text \<open>
  \<^verbatim>\<open>function returnData(cols: string[], dataRows: any[]) {
    const processedRows = dataRows.map((row: any) => cols.map((col: string) => {
      const value = row[col];
      return typeof value === 'bigint' ? value.toString() : value;
    }));
    resolve({ columns: cols, rows: processedRows, offset, limit, total });
  }\<close>
\<close>

definition returnData :: "nat \<Rightarrow> nat \<Rightarrow> jsval \<Rightarrow> jsstring list \<Rightarrow> row list \<Rightarrow> PageData" where
  "returnData pageOffset pageLimit tot cols dataRows =
     \<lparr>columns = cols,
      rows = map (\<lambda>r. map (\<lambda>col. stringifyBigInt (getProp r col)) cols) dataRows,
      offset = pageOffset, limit = pageLimit, total = tot\<rparr>"

text \<open>
  The block that each of the three loaders runs on the rows of the data statement:
  \<^verbatim>\<open>let queryColumns: string[];
  if (rows.length > 0) {
    queryColumns = Object.keys(rows[0]).map(sanitizeColumnName);
  } else {
    con.all(`${query} LIMIT 0`, (err, emptyRows) => {
      if (err) { return reject(err); }
      if (emptyRows.length > 0) {
        queryColumns = Object.keys(emptyRows[0]).map(sanitizeColumnName);
      } else {
        queryColumns = [];
      }
      returnData(queryColumns, rows);
    });
    return;
  }
  returnData(queryColumns, rows);\<close>
\<close>

definition queryColumnsOf :: "row list \<Rightarrow> jsstring list" where
  "queryColumnsOf rs =
     (case rs of [] \<Rightarrow> [] | r # rest \<Rightarrow> map sanitizeColumnName (objectKeys r))"

definition shapeResult ::
  "'db engine \<Rightarrow> jsstring \<Rightarrow> nat \<Rightarrow> nat \<Rightarrow> jsval \<Rightarrow> row list \<Rightarrow> 'db con \<Rightarrow> (fault + PageData) \<times> 'db con" where
  "shapeResult E query pageOffset pageLimit tot dataRows c =
     (if dataRows \<noteq> [] then
        (Inr (returnData pageOffset pageLimit tot (queryColumnsOf dataRows) dataRows), c)
      else
        (case con_all E (query @ js '' LIMIT 0'') c of
           (Inl err, c') \<Rightarrow> (Inl (Rejected (Host err)), c')
         | (Inr emptyRows, c') \<Rightarrow>
             (Inr (returnData pageOffset pageLimit tot (queryColumnsOf emptyRows) dataRows), c')))"

text \<open>
  Running the data statement:
  \<^verbatim>\<open>con.all(query, (err: Error | null, rows: any[]) => {
    if (err) { return reject(...); }
    ... the block above ...
  });\<close>
  \<^verbatim>\<open>loadWithDuckDB\<close> rejects with the engine's error, the other two loaders with an
  error of their own; \<open>onError\<close> is that choice.
\<close>

definition runData ::
  "(syserr \<Rightarrow> jserr) \<Rightarrow> 'db engine \<Rightarrow> jsstring \<Rightarrow> nat \<Rightarrow> nat \<Rightarrow> jsval \<Rightarrow> 'db con \<Rightarrow>
   (fault + PageData) \<times> 'db con" where
  "runData onError E query pageOffset pageLimit tot c =
     (case con_all E query c of
        (Inl err, c') \<Rightarrow> (Inl (Rejected (onError err)), c')
      | (Inr dataRows, c') \<Rightarrow> shapeResult E query pageOffset pageLimit tot dataRows c')"

section \<open>Loading delimited, columnar and object files\<close>

text \<open>
  \<^verbatim>\<open>const rawColumns = colRows.map((row: any) => row.column_name);
  const columns = rawColumns.map(sanitizeColumnName);\<close>
  \<^verbatim>\<open>name.replace\<close> raises a \<^verbatim>\<open>TypeError\<close> when a name is not a string.
\<close>

definition sanitizeValue :: "jsval \<Rightarrow> jsstring option" where
  "sanitizeValue v = (case v of JStr s \<Rightarrow> Some (sanitizeColumnName s) | _ \<Rightarrow> None)"

definition describedColumns :: "row list \<Rightarrow> jsstring list option" where
  "describedColumns colRows =
     those (map (\<lambda>r. sanitizeValue (getProp r (js ''column_name''))) colRows)"

text \<open>
  \<^verbatim>\<open>executeQuery\<close> of \<^verbatim>\<open>loadWithDuckDB\<close>, with the statement in \<open>query\<close>: the count
  over the base table, a describe probe whose columns are computed and not used, the data
  statement, and the shaping of its rows.
\<close>

definition executeQuery ::
  "'db engine \<Rightarrow> jsstring \<Rightarrow> nat \<Rightarrow> nat \<Rightarrow> 'db con \<Rightarrow> (fault + PageData) \<times> 'db con" where
  "executeQuery E query pageOffset pageLimit c =
     (case con_all E countQuery c of
        (Inl err, c1) \<Rightarrow> (Inl (Rejected (Host err)), c1)
      | (Inr countRows, c1) \<Rightarrow>
          (case totalOf countRows of
             None \<Rightarrow> (Inl (Uncaught TypeError), c1)
           | Some tot \<Rightarrow>
               (case con_all E describeQuery c1 of
                  (Inl err, c2) \<Rightarrow> (Inl (Rejected (Host err)), c2)
                | (Inr colRows, c2) \<Rightarrow>
                    (case describedColumns colRows of
                       None \<Rightarrow> (Inl (Uncaught TypeError), c2)
                     | Some cols \<Rightarrow> runData Host E query pageOffset pageLimit tot c2))))"

text \<open>
  The callback of the register statement in \<^verbatim>\<open>loadWithDuckDB\<close>.  It first sends a
  count whose reply is only logged (what that logging callback does has no part in the
  promise and is left out), then chooses the statement as above.  Only the search
  branch needs columns: there a describe probe is sent first, the statement is built in its
  callback from the columns it reports (\<^verbatim>\<open>hasSearch\<close>), and \<^verbatim>\<open>executeQuery\<close> is called
  from that callback; in the other two branches \<^verbatim>\<open>executeQuery\<close> is called at once.
\<close>

definition countProbe :: jsstring where
  "countProbe = js ''SELECT COUNT(*) as count FROM data''"

definition afterRegister ::
  "'db engine \<Rightarrow> nat \<Rightarrow> nat \<Rightarrow> jsstring option \<Rightarrow> jsstring option \<Rightarrow> 'db con \<Rightarrow>
   (fault + PageData) \<times> 'db con" where
  "afterRegister E pageOffset pageLimit search sql c =
     (let c1 = snd (con_all E countProbe c)
      in if given sql then executeQuery E (customQuery (the sql)) pageOffset pageLimit c1
         else if given search then
           (case con_all E describeQuery c1 of
              (Inl err, c2) \<Rightarrow> (Inl (Rejected (Host err)), c2)
            | (Inr colRows, c2) \<Rightarrow>
                (case describedColumns colRows of
                   None \<Rightarrow> (Inl (Uncaught TypeError), c2)
                 | Some cols \<Rightarrow>
                     executeQuery E
                       (searchQuery (join (js '' OR '') (map (likeCondition (needleOf (the search))) cols))
                          pageLimit pageOffset)
                       pageOffset pageLimit c2))
         else executeQuery E (plainQuery pageLimit pageOffset) pageOffset pageLimit c1)"

text \<open>
  \<^verbatim>\<open>loadWithDuckDB\<close>: a fresh in-memory database \<open>d0\<close>, the register statement for the
  file's extension, then the callback above.
\<close>

definition registerQuery :: "jshost \<Rightarrow> jsstring \<Rightarrow> jsstring" where
  "registerQuery H filePath =
     (let absPath = escapeQuotes (map (\<lambda>c. if c = 0x5C then 0x2F else c) (pathResolve H filePath));
          ext = toLowerCase (extname filePath)
      in if ext = js ''.csv'' then
           js ''CREATE TABLE data AS SELECT * FROM read_csv('' @ [0x27] @ absPath @ [0x27] @
           js '', delim = '' @ [0x27, 0x2C, 0x27] @ js '')''
         else if ext = js ''.tsv'' then
           js ''CREATE TABLE data AS SELECT * FROM read_csv('' @ [0x27] @ absPath @ [0x27] @
           js '', delim = '' @ [0x27, 0x09, 0x27] @ js '')''
         else if ext = js ''.parquet'' \<or> ext = js ''.pq'' then
           js ''CREATE TABLE data AS SELECT * FROM parquet_scan('' @ [0x27] @ absPath @ [0x27] @ js '')''
         else if ext = js ''.json'' then
           js ''CREATE TABLE data AS SELECT * FROM read_json('' @ [0x27] @ absPath @ [0x27] @ js '')''
         else
           js ''CREATE TABLE data AS SELECT * FROM read_csv_auto('' @ [0x27] @ absPath @ [0x27] @ js '')'')"

definition loadWithDuckDB ::
  "jshost \<Rightarrow> 'db engine \<Rightarrow> 'db \<Rightarrow> jsstring \<Rightarrow> nat \<Rightarrow> nat \<Rightarrow> jsstring option \<Rightarrow> jsstring option \<Rightarrow>
   (fault + PageData) \<times> 'db con" where
  "loadWithDuckDB H E d0 filePath pageOffset pageLimit search sql =
     (case con_run E (registerQuery H filePath) (d0, []) of
        (Some err, c) \<Rightarrow> (Inl (Rejected (Host err)), c)
      | (None, c) \<Rightarrow> afterRegister E pageOffset pageLimit search sql c)"

section \<open>Loading spreadsheets and markup: the staged table\<close>

text \<open>
  \<^verbatim>\<open>`CREATE TABLE data (${columns.map(col => `"${col}" VARCHAR`).join(', ')})`\<close>
\<close>

definition createTableQuery :: "jsstring list \<Rightarrow> jsstring" where
  "createTableQuery cols =
     js ''CREATE TABLE data ('' @
     join (js '', '') (map (\<lambda>col. [0x22] @ col @ [0x22] @ js '' VARCHAR'') cols) @ js '')''"

text \<open>
  \<^verbatim>\<open>`INSERT INTO data VALUES ${dataRows.map(row =>
     `(${row.map(val => `'${String(val || '').replace(/'/g, "''")}'`).join(', ')})`).join(', ')}`\<close>
  The same expression builds the insert statement in \<^verbatim>\<open>loadWithExcelJS\<close>, in
  \<^verbatim>\<open>loadWithXML\<close> and in the Parquet branch of \<^verbatim>\<open>saveFileData\<close>.
\<close>

definition sqlLiteral :: "jshost \<Rightarrow> jsval \<Rightarrow> jsstring" where
  "sqlLiteral H val = [0x27] @ escapeQuotes (ToString H (orElse val (JStr []))) @ [0x27]"

definition insertQuery :: "jshost \<Rightarrow> jsval list list \<Rightarrow> jsstring" where
  "insertQuery H dataRows =
     js ''INSERT INTO data VALUES '' @
     join (js '', '')
       (map (\<lambda>r. js ''('' @ join (js '', '') (map (sqlLiteral H) r) @ js '')'') dataRows)"

text \<open>
  \<^verbatim>\<open>runQuery\<close>, the same text in \<^verbatim>\<open>loadWithExcelJS\<close> and \<^verbatim>\<open>loadWithXML\<close>: the
  statement is chosen, the base table is counted, the statement is run and its rows are
  shaped.  A failing data statement is rejected with a fixed message.
\<close>

definition runQuery ::
  "'db engine \<Rightarrow> jsstring list \<Rightarrow> nat \<Rightarrow> nat \<Rightarrow> jsstring option \<Rightarrow> jsstring option \<Rightarrow> 'db con \<Rightarrow>
   (fault + PageData) \<times> 'db con" where
  "runQuery E cols pageOffset pageLimit search sql c =
     (let query = buildQuery quotedLikeCondition cols pageOffset pageLimit search sql
      in case con_all E countQuery c of
           (Inl err, c1) \<Rightarrow> (Inl (Rejected (Host err)), c1)
         | (Inr countRows, c1) \<Rightarrow>
             (case totalOf countRows of
                None \<Rightarrow> (Inl (Uncaught TypeError), c1)
              | Some tot \<Rightarrow>
                  runData (\<lambda>err. Error (js ''Hey! Dude please enter correct SQL..'')) E query
                    pageOffset pageLimit tot c1))"

text \<open>
  The staging that both loaders perform on a fresh in-memory database \<open>d0\<close>: create the
  table, insert the data rows if there are any, then \<^verbatim>\<open>runQuery\<close>.
\<close>

definition stageAndQuery ::
  "jshost \<Rightarrow> 'db engine \<Rightarrow> 'db \<Rightarrow> jsstring list \<Rightarrow> jsval list list \<Rightarrow> nat \<Rightarrow> nat \<Rightarrow>
   jsstring option \<Rightarrow> jsstring option \<Rightarrow> (fault + PageData) \<times> 'db con" where
  "stageAndQuery H E d0 cols dataRows pageOffset pageLimit search sql =
     (case con_run E (createTableQuery cols) (d0, []) of
        (Some err, c1) \<Rightarrow> (Inl (Rejected (Host err)), c1)
      | (None, c1) \<Rightarrow>
          if dataRows \<noteq> [] then
            (case con_run E (insertQuery H dataRows) c1 of
               (Some err, c2) \<Rightarrow> (Inl (Rejected (Host err)), c2)
             | (None, c2) \<Rightarrow> runQuery E cols pageOffset pageLimit search sql c2)
          else runQuery E cols pageOffset pageLimit search sql c1)"

definition emptyPage :: "nat \<Rightarrow> nat \<Rightarrow> PageData" where
  "emptyPage pageOffset pageLimit =
     \<lparr>columns = [], rows = [], offset = pageOffset, limit = pageLimit, total = JNum (Fin 0)\<rparr>"

text \<open>
  \<^verbatim>\<open>loadWithExcelJS\<close>.  The parameter \<open>readSheet\<close> stands for the spreadsheet reader:
  the error it raises, or the cell values of the rows of the first worksheet (arrays
  without holes).  The first row is the header; sanitizing a header cell that is not a
  string raises a \<^verbatim>\<open>TypeError\<close>, which the enclosing \<^verbatim>\<open>try\<close> turns into a rejection.
\<close>

definition loadWithExcelJS ::
  "jshost \<Rightarrow> (jsstring \<Rightarrow> jserr + jsval list list) \<Rightarrow> 'db engine \<Rightarrow> 'db \<Rightarrow> jsstring \<Rightarrow> nat \<Rightarrow> nat \<Rightarrow>
   jsstring option \<Rightarrow> jsstring option \<Rightarrow> (fault + PageData) \<times> 'db con" where
  "loadWithExcelJS H readSheet E d0 filePath pageOffset pageLimit search sql =
     (case readSheet filePath of
        Inl e \<Rightarrow> (Inl (Rejected e), (d0, []))
      | Inr sheetRows \<Rightarrow>
          (case sheetRows of
             [] \<Rightarrow> (Inr (emptyPage pageOffset pageLimit), (d0, []))
           | rawColumns # dataRows \<Rightarrow>
               (case those (map sanitizeValue rawColumns) of
                  None \<Rightarrow> (Inl (Rejected TypeError), (d0, []))
                | Some cols \<Rightarrow>
                    stageAndQuery H E d0 cols dataRows pageOffset pageLimit search sql)))"

text \<open>
  \<^verbatim>\<open>loadWithXML\<close>.  The parameter \<open>readItems\<close> stands for the first part of the
  function (reading and parsing the document, locating the items, flattening each item):
  the error raised there, \<open>None\<close> when the function resolves with the empty page, or the
  flattened items.  From there on:
  \<^verbatim>\<open>const allKeys = new Set<string>();
  flattenedItems.forEach(item => Object.keys(item).forEach(key => allKeys.add(key)));
  const columns = Array.from(allKeys).map(sanitizeColumnName);
  const dataRows = flattenedItems.map(item => columns.map(col => item[col] || ''));\<close>
\<close>

definition addAll :: "jsstring list \<Rightarrow> jsstring list \<Rightarrow> jsstring list" where
  "addAll ks allKeys = fold (\<lambda>k acc. if k \<in> set acc then acc else acc @ [k]) ks allKeys"

definition loadWithXML ::
  "jshost \<Rightarrow> (jsstring \<Rightarrow> jserr + row list option) \<Rightarrow> 'db engine \<Rightarrow> 'db \<Rightarrow> jsstring \<Rightarrow> nat \<Rightarrow> nat \<Rightarrow>
   jsstring option \<Rightarrow> jsstring option \<Rightarrow> (fault + PageData) \<times> 'db con" where
  "loadWithXML H readItems E d0 filePath pageOffset pageLimit search sql =
     (case readItems filePath of
        Inl e \<Rightarrow> (Inl (Rejected e), (d0, []))
      | Inr None \<Rightarrow> (Inr (emptyPage pageOffset pageLimit), (d0, []))
      | Inr (Some flattenedItems) \<Rightarrow>
          (let cols = map sanitizeColumnName (addAll (concat (map objectKeys flattenedItems)) []);
               dataRows = map (\<lambda>item. map (\<lambda>col. orElse (getProp item col) (JStr [])) cols)
                            flattenedItems
           in stageAndQuery H E d0 cols dataRows pageOffset pageLimit search sql))"

text \<open>
  \<^verbatim>\<open>export async function loadFileData(filePath, offset, limit, search?, sql?) {
    const type = detectFileType(filePath);
    if (type === 'excel') { return loadWithExcelJS(...); }
    else if (type === 'xml') { return loadWithXML(...); }
    else { return loadWithDuckDB(...); }
  }\<close>
\<close>

definition loadFileData ::
  "jshost \<Rightarrow> (jsstring \<Rightarrow> jserr + jsval list list) \<Rightarrow> (jsstring \<Rightarrow> jserr + row list option) \<Rightarrow>
   'db engine \<Rightarrow> 'db \<Rightarrow> jsstring \<Rightarrow> nat \<Rightarrow> nat \<Rightarrow> jsstring option \<Rightarrow> jsstring option \<Rightarrow>
   (fault + PageData) \<times> 'db con" where
  "loadFileData H readSheet readItems E d0 filePath pageOffset pageLimit search sql =
     (if detectFileType filePath = Excel then
        loadWithExcelJS H readSheet E d0 filePath pageOffset pageLimit search sql
      else if detectFileType filePath = Xml then
        loadWithXML H readItems E d0 filePath pageOffset pageLimit search sql
      else loadWithDuckDB H E d0 filePath pageOffset pageLimit search sql)"

section \<open>Saving\<close>

text \<open>
  The effects of \<^verbatim>\<open>saveFileData\<close> act on a world \<open>'w\<close> (the file system and, for
  Parquet, the in-memory database created for the call).  The serializers and writers are
  parameters; each writer returns the error it raises, if any, and the next world.
\<close>

record 'w saveops =
  unparse :: "jsval list list \<Rightarrow> jsstring list \<Rightarrow> jsstring \<Rightarrow> jsstring"
  jsonStringify :: "row list \<Rightarrow> jsstring"
  writeFileSync :: "jsstring \<Rightarrow> jsstring \<Rightarrow> 'w \<Rightarrow> syserr option \<times> 'w"
  xlsxWriteFile :: "jsstring \<Rightarrow> jsstring list \<Rightarrow> jsval list list \<Rightarrow> 'w \<Rightarrow> syserr option \<times> 'w"
  duckRun :: "jsstring \<Rightarrow> 'w \<Rightarrow> syserr option \<times> 'w"

text \<open>
  \<^verbatim>\<open>const obj: any = {};
  columns.forEach((col, index) => { obj[col] = row[index]; });\<close>
\<close>

definition setProp :: "row \<Rightarrow> jsstring \<Rightarrow> jsval \<Rightarrow> row" where
  "setProp obj k v =
     (if map_of obj k = None then obj @ [(k, v)]
      else map (\<lambda>(k', v'). if k' = k then (k', v) else (k', v')) obj)"

definition elementAt :: "jsval list \<Rightarrow> nat \<Rightarrow> jsval" where
  "elementAt xs i = (if i < length xs then xs ! i else JUndefined)"

definition rowObject :: "jsstring list \<Rightarrow> jsval list \<Rightarrow> row" where
  "rowObject cols r =
     fold (\<lambda>(col, index) obj. setProp obj col (elementAt r index)) (zip cols [0..<length cols]) []"

definition raised :: "syserr option \<times> 'w \<Rightarrow> jserr option \<times> 'w" where
  "raised r = (map_option Host (fst r), snd r)"

text \<open>\<^verbatim>\<open>`COPY data TO '${absPath}' (FORMAT PARQUET)`\<close>\<close>

definition exportQuery :: "jshost \<Rightarrow> jsstring \<Rightarrow> jsstring" where
  "exportQuery H filePath =
     js ''COPY data TO '' @ [0x27] @
     escapeQuotes (map (\<lambda>c. if c = 0x5C then 0x2F else c) (pathResolve H filePath)) @ [0x27] @
     js '' (FORMAT PARQUET)''"

text \<open>
  \<^verbatim>\<open>export async function saveFileData(filePath, columns, rows)\<close>: the result is the
  error the promise is rejected with, if any, and the world after the call.
\<close>

definition saveFileData ::
  "jshost \<Rightarrow> 'w saveops \<Rightarrow> jsstring \<Rightarrow> jsstring list \<Rightarrow> jsval list list \<Rightarrow> 'w \<Rightarrow> jserr option \<times> 'w" where
  "saveFileData H S filePath cols dataRows w =
     (let type = detectFileType filePath
      in if type = Csv \<or> type = Tsv then
           raised (writeFileSync S filePath
                     (unparse S dataRows cols (if type = Csv then [0x2C] else [0x09])) w)
         else if type = Excel then raised (xlsxWriteFile S filePath cols dataRows w)
         else if type = Parquet then
           (case duckRun S (createTableQuery cols) w of
              (Some err, w1) \<Rightarrow> (Some (Host err), w1)
            | (None, w1) \<Rightarrow>
                if dataRows \<noteq> [] then
                  (case duckRun S (insertQuery H dataRows) w1 of
                     (Some err, w2) \<Rightarrow> (Some (Host err), w2)
                   | (None, w2) \<Rightarrow> raised (duckRun S (exportQuery H filePath) w2))
                else raised (duckRun S (exportQuery H filePath) w1))
         else if type = Json then
           raised (writeFileSync S filePath (jsonStringify S (map (rowObject cols) dataRows)) w)
         else (Some (Error (js ''Unsupported file type for saving'')), w))"

section \<open>Finalizing a save; the retry helper\<close>

text \<open>\<^verbatim>\<open>err.code === 'EBUSY' || err.code === 'EPERM' || err.code === 'EACCES'\<close>\<close>

definition isLockError :: "syserr \<Rightarrow> bool" where
  "isLockError err \<longleftrightarrow>
     errCode err = Some (js ''EBUSY'') \<or> errCode err = Some (js ''EPERM'') \<or>
     errCode err = Some (js ''EACCES'')"

text \<open>
  \<^verbatim>\<open>async function withRetry(operation, maxAttempts = 10, delayMs = 500, onRetry?) {
    for (let attempt = 1; attempt <= maxAttempts; attempt++) {
      try { await operation(); return; }
      catch (err: any) {
        if (attempt === maxAttempts || !(err.code === 'EBUSY' || err.code === 'EPERM'
            || err.code === 'EACCES')) { throw err; }
        if (onRetry) { onRetry(attempt, err); }
        await new Promise(resolve => setTimeout(resolve, delayMs * Math.pow(2, attempt - 1)));
      }
    }
  }\<close>
  The operation, the optional callback and the timer act on a world \<open>'w\<close>.  Beside the
  error thrown (if any) and the final world, the model returns the calls made, in order:
  each attempt with its outcome and each delay in milliseconds.
\<close>

datatype retryEvent = Attempt "syserr option" | Delay nat

function withRetryFrom ::
  "('w \<Rightarrow> syserr option \<times> 'w) \<Rightarrow> nat \<Rightarrow> nat \<Rightarrow> (nat \<Rightarrow> syserr \<Rightarrow> 'w \<Rightarrow> 'w) option \<Rightarrow>
   (nat \<Rightarrow> 'w \<Rightarrow> 'w) \<Rightarrow> nat \<Rightarrow> 'w \<Rightarrow> syserr option \<times> 'w \<times> retryEvent list" where
  "withRetryFrom operation maxAttempts delayMs onRetry setTimeout attempt w =
     (if attempt \<le> maxAttempts then
        (case operation w of
           (None, w1) \<Rightarrow> (None, w1, [Attempt None])
         | (Some err, w1) \<Rightarrow>
             if attempt = maxAttempts \<or> \<not> isLockError err then (Some err, w1, [Attempt (Some err)])
             else
               (let w2 = (case onRetry of None \<Rightarrow> w1 | Some f \<Rightarrow> f attempt err w1);
                    w3 = setTimeout (delayMs * 2 ^ (attempt - 1)) w2
                in case withRetryFrom operation maxAttempts delayMs onRetry setTimeout (attempt + 1) w3 of
                     (r, w4, events) \<Rightarrow>
                       (r, w4, Attempt (Some err) # Delay (delayMs * 2 ^ (attempt - 1)) # events)))
      else (None, w, []))"
  by pat_completeness auto
termination
  by (relation "measure (\<lambda>(operation, maxAttempts, delayMs, onRetry, setTimeout, attempt, w).
        Suc maxAttempts - attempt)") auto

declare withRetryFrom.simps [simp del]

definition withRetry ::
  "('w \<Rightarrow> syserr option \<times> 'w) \<Rightarrow> nat \<Rightarrow> nat \<Rightarrow> (nat \<Rightarrow> syserr \<Rightarrow> 'w \<Rightarrow> 'w) option \<Rightarrow>
   (nat \<Rightarrow> 'w \<Rightarrow> 'w) \<Rightarrow> 'w \<Rightarrow> syserr option \<times> 'w \<times> retryEvent list" where
  "withRetry operation maxAttempts delayMs onRetry setTimeout w =
     withRetryFrom operation maxAttempts delayMs onRetry setTimeout 1 w"

text \<open>
  The \<^verbatim>\<open>finalizeSave\<close> branch of the editor's message handler.  The file operations
  are parameters acting on the world: \<open>stat\<close> of the temporary file,
  \<open>openReadWrite\<close> (\<^verbatim>\<open>fs.promises.open(filePath, 'r+')\<close> followed by \<^verbatim>\<open>close\<close>) and
  \<open>rename\<close> with overwrite.  The result lists what the handler posts and does, in order;
  the webview panel is taken to be alive.
\<close>

record 'w fileops =
  stat :: "jsstring \<Rightarrow> 'w \<Rightarrow> syserr option \<times> 'w"
  openReadWrite :: "jsstring \<Rightarrow> 'w \<Rightarrow> syserr option \<times> 'w"
  rename :: "jsstring \<Rightarrow> jsstring \<Rightarrow> 'w \<Rightarrow> syserr option \<times> 'w"

datatype uiEvent =
    PostError jsstring
  | MakeEdit "jsstring list" "jsval list list"
  | ShowInformation jsstring
  | PostSaveComplete

definition messageOr :: "syserr \<Rightarrow> jsstring \<Rightarrow> jsstring" where
  "messageOr err dflt = (if errMessage err \<noteq> [] then errMessage err else dflt)"

definition finalizeSave ::
  "'w fileops \<Rightarrow> jsstring \<Rightarrow> jsstring option \<Rightarrow> jsstring list \<Rightarrow> jsval list list \<Rightarrow> 'w \<Rightarrow>
   uiEvent list \<times> 'w" where
  "finalizeSave F filePath tempFile msgColumns msgRows w =
     (if tempFile = None \<or> tempFile = Some [] then
        ([PostError (js ''No pending save to finalize.'')], w)
      else
        (case stat F (the tempFile) w of
           (Some e, w1) \<Rightarrow> ([PostError (js ''Temp file no longer exists.'')], w1)
         | (None, w1) \<Rightarrow>
             (case openReadWrite F filePath w1 of
                (Some err, w2) \<Rightarrow>
                  if isLockError err then
                    ([PostError (js ''File is still locked. Please close it in the other program and try again.'')], w2)
                  else ([PostError (messageOr err (js ''Failed to finalize save.''))], w2)
              | (None, w2) \<Rightarrow>
                  (case rename F (the tempFile) filePath w2 of
                     (Some err, w3) \<Rightarrow>
                       ([PostError (messageOr err (js ''Failed to finalize save.''))], w3)
                   | (None, w3) \<Rightarrow>
                       ([MakeEdit msgColumns msgRows,
                         ShowInformation (js ''File saved successfully.''),
                         PostSaveComplete], w3)))))"

section \<open>A small engine and a small file system for examples\<close>

text \<open>
  A host whose paths are already absolute.  The texts of fractions and of objects are
  placeholders that the examples never reach.
\<close>

definition demoHost :: jshost where
  "demoHost =
     \<lparr>pathResolve = (\<lambda>p. p), fractionToString = (\<lambda>q. []), objectToString = (\<lambda>r. [])\<rparr>"

text \<open>
  An engine over a table held as its list of rows; the state already holds the rows of
  the file, and a \<^verbatim>\<open>CREATE TABLE\<close> statement leaves it as it is.  It answers the two counts, the
  describe probe (one row per column of the first table row), the unpaged selection, the
  same with \<^verbatim>\<open> LIMIT 0\<close> and the first page of size one; every other statement is an
  error.  No statement changes
  the table.
\<close>

definition demoEngine :: "row list engine" where
  "demoEngine q d =
     (if take 12 q = js ''CREATE TABLE'' then (Inr [], d)
      else if q = countQuery then (Inr [[(js ''total'', JBigInt (int (length d)))]], d)
      else if q = countProbe then (Inr [[(js ''count'', JBigInt (int (length d)))]], d)
      else if q = describeQuery then
        (Inr (map (\<lambda>k. [(js ''column_name'', JStr k)]) (case d of [] \<Rightarrow> [] | r # rs \<Rightarrow> objectKeys r)), d)
      else if q = js ''SELECT * FROM data'' then (Inr d, d)
      else if q = js ''SELECT * FROM data LIMIT 0'' then (Inr [], d)
      else if q = plainQuery 1 0 then (Inr (take 1 d), d)
      else (Inl (SysError None (js ''Parser Error'')), d))"

text \<open>
  A file system: the files with their contents, the number of coming attempts to open the
  destination that will still find it locked, and the number of attempts made.
\<close>

record demoWorld =
  files :: "(jsstring \<times> jsstring) list"
  lockedFor :: nat
  opens :: nat

definition demoFileops :: "demoWorld fileops" where
  "demoFileops =
     \<lparr>stat = (\<lambda>p w. (if map_of (files w) p = None
                        then Some (SysError (Some (js ''ENOENT'')) (js ''no such file or directory''))
                        else None, w)),
      openReadWrite = (\<lambda>p w.
         if 0 < lockedFor w
         then (Some (SysError (Some (js ''EBUSY'')) (js ''resource busy or locked'')),
               w\<lparr>lockedFor := lockedFor w - 1, opens := opens w + 1\<rparr>)
         else (None, w\<lparr>opens := opens w + 1\<rparr>)),
      rename = (\<lambda>src dst w.
         case map_of (files w) src of
           None \<Rightarrow> (Some (SysError (Some (js ''ENOENT'')) (js ''no such file or directory'')), w)
         | Some content \<Rightarrow>
             (None, w\<lparr>files := (dst, content) # filter (\<lambda>(p, s). p \<noteq> src \<and> p \<noteq> dst) (files w)\<rparr>))\<rparr>"

text \<open>Writers over a world that is just the list of files with their contents.\<close>

definition demoSaveops :: "((jsstring \<times> jsstring) list) saveops" where
  "demoSaveops =
     \<lparr>unparse = (\<lambda>dataRows cols delim.
         join [0x0A] (join delim cols # map (\<lambda>r. join delim (map (ToString demoHost) r)) dataRows)),
      jsonStringify = (\<lambda>objs. js ''[]''),
      writeFileSync = (\<lambda>p s w. (None, (p, s) # filter (\<lambda>(q, t). q \<noteq> p) w)),
      xlsxWriteFile = (\<lambda>p cols dataRows w. (None, (p, js ''xlsx'') # filter (\<lambda>(q, t). q \<noteq> p) w)),
      duckRun = (\<lambda>q w. (None, w))\<rparr>"


definition demoTable :: "row list" where
  "demoTable =
     [[(js ''name'', JStr (js ''Ann'')), (js ''age'', JBigInt 31)],
      [(js ''name'', JStr (js ''Bob'')), (js ''age'', JBigInt 45)]]"

text \<open>
  A second example with a file behind it.  The file \<^verbatim>\<open>/data/names.csv\<close> and the first
  worksheet of \<^verbatim>\<open>/data/names.xlsx\<close> hold the same three rows under the header
  \<^verbatim>\<open>name, city\<close>; every cell is text.
\<close>

definition namesCells :: "jsval list list" where
  "namesCells =
     [[JStr (js ''Ann''), JStr (js ''Oslo'')],
      [JStr (js ''Bob''), JStr (js ''Rome'')],
      [JStr (js ''Bobby''), JStr (js ''Bonn'')]]"

definition namesSheet :: "jsstring \<Rightarrow> jserr + jsval list list" where
  "namesSheet p =
     (if p = js ''/data/names.xlsx'' then Inr ([JStr (js ''name''), JStr (js ''city'')] # namesCells)
      else Inl (Host (SysError (Some (js ''ENOENT'')) (js ''no such file or directory''))))"

definition namesTable :: "row list" where
  "namesTable =
     [[(js ''name'', JStr (js ''Ann'')), (js ''city'', JStr (js ''Oslo''))],
      [(js ''name'', JStr (js ''Bob'')), (js ''city'', JStr (js ''Rome''))],
      [(js ''name'', JStr (js ''Bobby'')), (js ''city'', JStr (js ''Bonn''))]]"

text \<open>A text holds a needle somewhere; a row has a text cell that holds the needle.\<close>

fun containsText :: "jsstring \<Rightarrow> jsstring \<Rightarrow> bool" where
  "containsText needle [] = (needle = [])"
| "containsText needle (c # cs) = (take (length needle) (c # cs) = needle \<or> containsText needle cs)"

definition rowMatches :: "jsstring \<Rightarrow> row \<Rightarrow> bool" where
  "rowMatches needle r =
     list_ex (\<lambda>v. case v of JStr s \<Rightarrow> containsText needle s | _ \<Rightarrow> False) (map snd r)"

text \<open>
  An engine that ingests: the register statement for \<^verbatim>\<open>/data/names.csv\<close> makes the
  table hold the rows of that file, the \<^verbatim>\<open>CREATE TABLE\<close> statement for the two columns
  makes it empty, and the insert statement for the cells of the worksheet appends their
  rows.  It answers the search for \<^verbatim>\<open>Bob\<close> over the two columns, in both forms of
  condition, with limit 1 and offset 0, by the first row that matches.  Every other
  statement is answered as by the first engine.
\<close>

definition loadingEngine :: "row list engine" where
  "loadingEngine q d =
     (if q = registerQuery demoHost (js ''/data/names.csv'') then (Inr [], namesTable)
      else if q = createTableQuery [js ''name'', js ''city''] then (Inr [], [])
      else if q = insertQuery demoHost namesCells then (Inr [], d @ namesTable)
      else if q = searchQuery (join (js '' OR '') (map (likeCondition (js ''Bob'')) [js ''name'', js ''city''])) 1 0 \<or>
              q = searchQuery (join (js '' OR '') (map (quotedLikeCondition (js ''Bob'')) [js ''name'', js ''city''])) 1 0
        then (Inr (take 1 (filter (rowMatches (js ''Bob'')) d)), d)
      else demoEngine q d)"

section \<open>Vocabulary of the statements below\<close>

text \<open>
  What a loader reads as \<open>total\<close> from the count over the base table, in database state
  \<open>d\<close>: \<open>None\<close> when the count fails or returns no row.
\<close>

definition baseTotal :: "'db engine \<Rightarrow> 'db \<Rightarrow> jsval option" where
  "baseTotal E d = (case fst (E countQuery d) of Inl err \<Rightarrow> None | Inr countRows \<Rightarrow> totalOf countRows)"

text \<open>
  The connection after the staging of \<^verbatim>\<open>loadWithExcelJS\<close> and \<^verbatim>\<open>loadWithXML\<close>: the
  table is created and, if there are data rows, filled.
\<close>

definition stagedCon :: "jshost \<Rightarrow> 'db engine \<Rightarrow> 'db \<Rightarrow> jsstring list \<Rightarrow> jsval list list \<Rightarrow> 'db con" where
  "stagedCon H E d0 cols dataRows =
     (let c1 = snd (con_run E (createTableQuery cols) (d0, []))
      in if dataRows \<noteq> [] then snd (con_run E (insertQuery H dataRows) c1) else c1)"

text \<open>
  The columns and the data rows that \<^verbatim>\<open>loadWithXML\<close> computes from the flattened
  items and stages.
\<close>

definition markupColumns :: "row list \<Rightarrow> jsstring list" where
  "markupColumns flattenedItems =
     map sanitizeColumnName (addAll (concat (map objectKeys flattenedItems)) [])"

definition markupRows :: "row list \<Rightarrow> jsval list list" where
  "markupRows flattenedItems =
     map (\<lambda>item. map (\<lambda>col. orElse (getProp item col) (JStr [])) (markupColumns flattenedItems))
       flattenedItems"

text \<open>
  The database states of a load by \<^verbatim>\<open>loadWithDuckDB\<close>, from the state \<open>d\<close> that the
  register statement leaves.  \<open>probedState\<close> is the state in which the count over the
  base table is run: after the count probe and, for a search without custom SQL, the
  describe probe.  \<open>queryState\<close> is the state in which the data statement is run: after
  that count and the describe of \<^verbatim>\<open>executeQuery\<close>.
\<close>

definition probedState :: "'db engine \<Rightarrow> jsstring option \<Rightarrow> jsstring option \<Rightarrow> 'db \<Rightarrow> 'db" where
  "probedState E search sql d =
     (if \<not> given sql \<and> given search then snd (E describeQuery (snd (E countProbe d)))
      else snd (E countProbe d))"

definition queryState :: "'db engine \<Rightarrow> jsstring option \<Rightarrow> jsstring option \<Rightarrow> 'db \<Rightarrow> 'db" where
  "queryState E search sql d =
     snd (E describeQuery (snd (E countQuery (probedState E search sql d))))"

text \<open>
  The engine honours the limit \<open>n\<close> in its reply to the statement \<open>q\<close> in the database
  state \<open>d\<close>: when it replies with rows, there are at most \<open>n\<close> of them.
\<close>

definition honoursLimit :: "'db engine \<Rightarrow> jsstring \<Rightarrow> 'db \<Rightarrow> nat \<Rightarrow> bool" where
  "honoursLimit E q d n = (case fst (E q d) of Inl err \<Rightarrow> True | Inr rs \<Rightarrow> length rs \<le> n)"

text \<open>
  Reading the body of a SQL string literal: a doubled quote stands for one quote, and a
  single quote on its own would end the literal (\<open>None\<close>).
\<close>

fun unescapeQuotes :: "jsstring \<Rightarrow> jsstring option" where
  "unescapeQuotes [] = Some []"
| "unescapeQuotes [c] = (if c = 0x27 then None else Some [c])"
| "unescapeQuotes (c # d # cs) =
     (if c = 0x27 then (if d = 0x27 then map_option ((#) 0x27) (unescapeQuotes cs) else None)
      else map_option ((#) c) (unescapeQuotes (d # cs)))"



text \<open>
  The calls that \<^verbatim>\<open>withRetry\<close> makes when the attempts before the last one fail with
  the errors \<open>errs\<close>, the exponent of the first delay is \<open>first\<close>, and the last attempt
  ends with \<open>final\<close>: each failed attempt is followed by a delay that doubles from one
  attempt to the next.
\<close>

definition retryTrace :: "nat \<Rightarrow> nat \<Rightarrow> syserr list \<Rightarrow> syserr option \<Rightarrow> retryEvent list" where
  "retryTrace delayMs first errs final =
     concat (map (\<lambda>(k, e). [Attempt (Some e), Delay (delayMs * 2 ^ k)])
               (zip [first..<first + length errs] errs)) @ [Attempt final]"

text \<open>An operation for \<^verbatim>\<open>withRetry\<close>: the lock check of the example file system.\<close>

definition demoOperation :: "demoWorld \<Rightarrow> syserr option \<times> demoWorld" where
  "demoOperation w = openReadWrite demoFileops (js ''/data/t.csv'') w"

definition demoWorld0 :: demoWorld where
  "demoWorld0 =
     \<lparr>files = [(js ''/data/t.csv'', js ''old''), (js ''/data/t.csv.tmp'', js ''new'')],
      lockedFor = 1, opens = 0\<rparr>"

section \<open>Column-name sanitization\<close>

lemma replaceWhitespaceRuns_clean:
  "\<forall>c \<in> set s. \<not> isWhiteSpace c \<Longrightarrow> replaceWhitespaceRuns r s = s"
  by (induction s) auto

lemma set_replaceWhitespaceRuns:
  "set (replaceWhitespaceRuns r s) \<subseteq> set r \<union> {c \<in> set s. \<not> isWhiteSpace c}"
  by (induction r s rule: replaceWhitespaceRuns.induct) (auto dest: set_dropWhileD)

lemma underscore_not_whitespace: "\<not> isWhiteSpace 0x5F"
  by (simp add: isWhiteSpace_def)

lemma sanitizeColumnName_no_whitespace:
  "c \<in> set (sanitizeColumnName s) \<Longrightarrow> \<not> isWhiteSpace c"
  using set_replaceWhitespaceRuns [of "[0x5F]" s] underscore_not_whitespace
  by (auto simp: sanitizeColumnName_def)

lemma dropWhile_run:
  "\<forall>c \<in> set ws. P c \<Longrightarrow> b = [] \<or> \<not> P (hd b) \<Longrightarrow> dropWhile P (ws @ b) = b"
  by (induction ws) (cases b; auto)+

lemma replaceWhitespaceRuns_run:
  assumes "ws \<noteq> []" and "\<forall>c \<in> set ws. isWhiteSpace c" and "b = [] \<or> \<not> isWhiteSpace (hd b)"
  shows "replaceWhitespaceRuns r (ws @ b) = r @ replaceWhitespaceRuns r b"
proof -
  from assms(1) obtain w ws' where ws: "ws = w # ws'"
    by (cases ws) auto
  with assms(2) have "isWhiteSpace w" and rest: "\<forall>c \<in> set ws'. isWhiteSpace c"
    by auto
  moreover have "dropWhile isWhiteSpace (ws' @ b) = b"
    using rest assms(3) by (rule dropWhile_run)
  ultimately show ?thesis
    by (simp add: ws)
qed

lemma replaceWhitespaceRuns_clean_prefix:
  "\<forall>c \<in> set a. \<not> isWhiteSpace c \<Longrightarrow>
   replaceWhitespaceRuns r (a @ s) = a @ replaceWhitespaceRuns r s"
  by (induction a) auto

text \<open>
  Claim C9.  Sanitizing a column name replaces every maximal run of white space by one
  underscore: after a prefix \<open>a\<close> free of white space, a non-empty run \<open>ws\<close> of white
  space that is maximal (the rest \<open>b\<close> is empty or starts with another character) becomes
  the single character \<open>_\<close>, and the rest is sanitized in the same way.  The result holds
  no white space, and sanitizing is idempotent.
\<close>

theorem sanitizeColumnName_idempotent:
  "sanitizeColumnName (sanitizeColumnName s) = sanitizeColumnName s \<and>
   (\<forall>c \<in> set (sanitizeColumnName s). \<not> isWhiteSpace c) \<and>
   ((\<forall>c \<in> set a. \<not> isWhiteSpace c) \<and> ws \<noteq> [] \<and> (\<forall>c \<in> set ws. isWhiteSpace c) \<and>
    (b = [] \<or> \<not> isWhiteSpace (hd b)) \<longrightarrow>
    sanitizeColumnName (a @ ws @ b) = a @ [0x5F] @ sanitizeColumnName b)"
proof (intro conjI impI)
  have clean: "\<forall>c \<in> set (sanitizeColumnName s). \<not> isWhiteSpace c"
    using sanitizeColumnName_no_whitespace by blast
  then show "\<forall>c \<in> set (sanitizeColumnName s). \<not> isWhiteSpace c" .
  from clean show "sanitizeColumnName (sanitizeColumnName s) = sanitizeColumnName s"
    unfolding sanitizeColumnName_def by (rule replaceWhitespaceRuns_clean)
next
  assume h: "(\<forall>c \<in> set a. \<not> isWhiteSpace c) \<and> ws \<noteq> [] \<and> (\<forall>c \<in> set ws. isWhiteSpace c) \<and>
    (b = [] \<or> \<not> isWhiteSpace (hd b))"
  then have "replaceWhitespaceRuns [0x5F] (ws @ b) = [0x5F] @ replaceWhitespaceRuns [0x5F] b"
    by (intro replaceWhitespaceRuns_run) auto
  with h show "sanitizeColumnName (a @ ws @ b) = a @ [0x5F] @ sanitizeColumnName b"
    by (simp add: sanitizeColumnName_def replaceWhitespaceRuns_clean_prefix)
qed

theorem sanitizeColumnName_idempotent_witness:
  "list_all (\<lambda>c. \<not> isWhiteSpace c) (js ''first'') \<and> [0x20, 0x09] \<noteq> ([] :: jsstring) \<and>
   list_all isWhiteSpace [0x20, 0x09] \<and> \<not> isWhiteSpace (hd (js ''name'')) \<and>
   0x5F \<in> set (sanitizeColumnName (js ''first'' @ [0x20, 0x09] @ js ''name'')) \<and>
   sanitizeColumnName (js ''first'' @ [0x20, 0x09] @ js ''name'') = js ''first_name'' \<and>
   sanitizeColumnName (js ''first_name'') = js ''first_name''"
  using sanitizeColumnName_idempotent
    [of "js ''first'' @ [0x20, 0x09] @ js ''name''" "js ''first''" "[0x20, 0x09]" "js ''name''"]
  by (simp add: js_def isWhiteSpace_def sanitizeColumnName_def)

section \<open>The loaders step by step\<close>

lemma con_all_simps:
  "fst (con_all E q c) = fst (E q (fst c))"
  "fst (snd (con_all E q c)) = snd (E q (fst c))"
  "snd (snd (con_all E q c)) = snd c @ [q]"
  by (simp_all add: con_all_def split: prod.splits)

lemma con_all_eq:
  "con_all E q c = (fst (E q (fst c)), snd (E q (fst c)), snd c @ [q])"
  by (simp add: con_all_def split: prod.splits)

lemma returnData_simps:
  "columns (returnData off lmt tot cols dataRows) = cols"
  "rows (returnData off lmt tot cols dataRows) = map (\<lambda>r. map (\<lambda>col. stringifyBigInt (getProp r col)) cols) dataRows"
  "offset (returnData off lmt tot cols dataRows) = off"
  "limit (returnData off lmt tot cols dataRows) = lmt"
  "total (returnData off lmt tot cols dataRows) = tot"
  by (simp_all add: returnData_def)

lemma shapeResult_rows:
  "dataRows \<noteq> [] \<Longrightarrow>
   shapeResult E query off lmt tot dataRows c =
     (Inr (returnData off lmt tot (map sanitizeColumnName (objectKeys (hd dataRows))) dataRows), c)"
  by (cases dataRows) (simp_all add: shapeResult_def queryColumnsOf_def)

lemma shapeResult_empty:
  "shapeResult E query off lmt tot [] c =
     (case fst (E (query @ js '' LIMIT 0'') (fst c)) of
        Inl err \<Rightarrow> Inl (Rejected (Host err))
      | Inr emptyRows \<Rightarrow> Inr (returnData off lmt tot (queryColumnsOf emptyRows) []),
      snd (E (query @ js '' LIMIT 0'') (fst c)), snd c @ [query @ js '' LIMIT 0''])"
  by (simp add: shapeResult_def con_all_eq split: sum.splits)

lemma runData_page:
  assumes "fst (runData onError E query off lmt tot c) = Inr p"
  shows "\<exists>dataRows. fst (E query (fst c)) = Inr dataRows \<and>
           rows p = map (\<lambda>r. map (\<lambda>col. stringifyBigInt (getProp r col)) (columns p)) dataRows \<and>
           total p = tot \<and> offset p = off \<and> limit p = lmt \<and>
           (dataRows \<noteq> [] \<longrightarrow>
              columns p = map sanitizeColumnName (objectKeys (hd dataRows)) \<and>
              snd (snd (runData onError E query off lmt tot c)) = snd c @ [query]) \<and>
           (dataRows = [] \<longrightarrow>
              snd (snd (runData onError E query off lmt tot c)) = snd c @ [query, query @ js '' LIMIT 0''] \<and>
              (\<exists>emptyRows. fst (E (query @ js '' LIMIT 0'') (snd (E query (fst c)))) = Inr emptyRows \<and>
                 columns p = queryColumnsOf emptyRows))"
proof (cases "fst (E query (fst c))")
  case (Inl err)
  with assms show ?thesis
    by (simp add: runData_def con_all_eq)
next
  case (Inr dataRows)
  show ?thesis
  proof (cases "dataRows = []")
    case True
    with Inr assms show ?thesis
      by (auto simp: runData_def con_all_eq shapeResult_empty returnData_simps split: sum.splits)
  next
    case False
    with Inr assms show ?thesis
      by (auto simp: runData_def con_all_eq shapeResult_rows returnData_simps)
  qed
qed


lemma runQuery_page:
  assumes "fst (runQuery E cols off lmt search sql c) = Inr p"
  shows "\<exists>countRows tot. fst (E countQuery (fst c)) = Inr countRows \<and> totalOf countRows = Some tot \<and>
           runQuery E cols off lmt search sql c =
             runData (\<lambda>err. Error (js ''Hey! Dude please enter correct SQL..'')) E
               (buildQuery quotedLikeCondition cols off lmt search sql) off lmt tot
               (snd (E countQuery (fst c)), snd c @ [countQuery])"
  using assms
  by (auto simp: runQuery_def con_all_eq split: sum.splits option.splits)

lemma executeQuery_page:
  assumes "fst (executeQuery E query off lmt c) = Inr p"
  shows "\<exists>countRows tot colRows cols.
           fst (E countQuery (fst c)) = Inr countRows \<and> totalOf countRows = Some tot \<and>
           fst (E describeQuery (snd (E countQuery (fst c)))) = Inr colRows \<and>
           describedColumns colRows = Some cols \<and>
           executeQuery E query off lmt c =
             runData Host E query off lmt tot
               (snd (E describeQuery (snd (E countQuery (fst c)))),
                snd c @ [countQuery, describeQuery])"
  using assms
  by (auto simp: executeQuery_def con_all_eq split: sum.splits option.splits)

lemma afterRegister_cases:
  "afterRegister E off lmt search sql c =
     (let c1 = (snd (E countProbe (fst c)), snd c @ [countProbe])
      in if \<not> given sql \<and> given search then
           (case fst (E describeQuery (fst c1)) of
              Inl err \<Rightarrow> (Inl (Rejected (Host err)), snd (E describeQuery (fst c1)), snd c1 @ [describeQuery])
            | Inr colRows \<Rightarrow>
                (case describedColumns colRows of
                   None \<Rightarrow> (Inl (Uncaught TypeError), snd (E describeQuery (fst c1)), snd c1 @ [describeQuery])
                 | Some cols \<Rightarrow>
                     executeQuery E (buildQuery likeCondition cols off lmt search sql) off lmt
                       (snd (E describeQuery (fst c1)), snd c1 @ [describeQuery])))
         else executeQuery E (buildQuery likeCondition [] off lmt search sql) off lmt c1)"
  by (auto simp: afterRegister_def con_all_eq buildQuery_def Let_def split: sum.splits option.splits)


lemma afterRegister_page:
  assumes "fst (afterRegister E off lmt search sql c) = Inr p"
  shows "\<exists>cols cX.
           afterRegister E off lmt search sql c =
             executeQuery E (buildQuery likeCondition cols off lmt search sql) off lmt cX \<and>
           snd cX = snd c @ [countProbe] @ (if \<not> given sql \<and> given search then [describeQuery] else []) \<and>
           fst cX = (if \<not> given sql \<and> given search
                     then snd (E describeQuery (snd (E countProbe (fst c))))
                     else snd (E countProbe (fst c))) \<and>
           (\<not> given sql \<and> given search \<longrightarrow>
              (\<exists>colRows. fst (E describeQuery (snd (E countProbe (fst c)))) = Inr colRows \<and>
                 describedColumns colRows = Some cols))"
proof (cases "\<not> given sql \<and> given search")
  case True
  with assms show ?thesis
    unfolding afterRegister_cases Let_def
    by (auto split: sum.splits option.splits)
next
  case False
  then have eq: "afterRegister E off lmt search sql c =
      executeQuery E (buildQuery likeCondition [] off lmt search sql) off lmt
        (snd (E countProbe (fst c)), snd c @ [countProbe])"
    by (cases "given sql"; cases "given search"; simp add: afterRegister_cases Let_def)
  have "afterRegister E off lmt search sql c =
             executeQuery E (buildQuery likeCondition [] off lmt search sql) off lmt
               (snd (E countProbe (fst c)), snd c @ [countProbe]) \<and>
           snd (snd (E countProbe (fst c)), snd c @ [countProbe]) =
             snd c @ [countProbe] @ (if \<not> given sql \<and> given search then [describeQuery] else []) \<and>
           fst (snd (E countProbe (fst c)), snd c @ [countProbe]) =
             (if \<not> given sql \<and> given search
              then snd (E describeQuery (snd (E countProbe (fst c))))
              else snd (E countProbe (fst c))) \<and>
           (\<not> given sql \<and> given search \<longrightarrow>
              (\<exists>colRows. fst (E describeQuery (snd (E countProbe (fst c)))) = Inr colRows \<and>
                 describedColumns colRows = Some []))"
    using False eq by (cases "given sql"; cases "given search"; simp)
  then show ?thesis
    by blast
qed

lemma executeQuery_runData:
  assumes "fst (executeQuery E query off lmt c) = Inr p"
  shows "\<exists>tot. Some tot = baseTotal E (fst c) \<and>
           executeQuery E query off lmt c =
             runData Host E query off lmt tot
               (snd (E describeQuery (snd (E countQuery (fst c)))), snd c @ [countQuery, describeQuery])"
  using executeQuery_page [OF assms] by (auto simp: baseTotal_def)

lemma runQuery_runData:
  assumes "fst (runQuery E cols off lmt search sql c) = Inr p"
  shows "\<exists>tot. Some tot = baseTotal E (fst c) \<and>
           runQuery E cols off lmt search sql c =
             runData (\<lambda>err. Error (js ''Hey! Dude please enter correct SQL..'')) E
               (buildQuery quotedLikeCondition cols off lmt search sql) off lmt tot
               (snd (E countQuery (fst c)), snd c @ [countQuery])"
  using runQuery_page [OF assms] by (auto simp: baseTotal_def)

lemma buildQuery_paged:
  "\<not> given sql \<Longrightarrow>
   buildQuery condition cols off lmt search sql = plainQuery lmt off \<or>
   (\<exists>conds. buildQuery condition cols off lmt search sql = searchQuery conds lmt off)"
  by (auto simp: buildQuery_def)

section \<open>A load, from the ingestion on\<close>

lemma stageAndQuery_runQuery:
  assumes "fst (stageAndQuery H E d0 cols dataRows off lmt search sql) = Inr p"
  shows "stageAndQuery H E d0 cols dataRows off lmt search sql =
           runQuery E cols off lmt search sql (stagedCon H E d0 cols dataRows)"
  using assms
  by (auto simp: stageAndQuery_def stagedCon_def Let_def split: prod.splits option.splits if_splits)

lemma loadFileData_sheet:
  assumes "detectFileType filePath = Excel"
    and "readSheet filePath = Inr (rawColumns # cells)"
    and "those (map sanitizeValue rawColumns) = Some scols"
    and "fst (loadFileData H readSheet readItems E d0 filePath off lmt search sql) = Inr p"
  shows "loadFileData H readSheet readItems E d0 filePath off lmt search sql =
           runQuery E scols off lmt search sql (stagedCon H E d0 scols cells)"
proof -
  from assms have eq: "loadFileData H readSheet readItems E d0 filePath off lmt search sql =
      stageAndQuery H E d0 scols cells off lmt search sql"
    by (simp add: loadFileData_def loadWithExcelJS_def)
  with assms(4) have "fst (stageAndQuery H E d0 scols cells off lmt search sql) = Inr p"
    by simp
  from stageAndQuery_runQuery [OF this] eq show ?thesis
    by simp
qed

lemma loadFileData_markup:
  assumes "detectFileType filePath = Xml"
    and "readItems filePath = Inr (Some items)"
    and "fst (loadFileData H readSheet readItems E d0 filePath off lmt search sql) = Inr p"
  shows "loadFileData H readSheet readItems E d0 filePath off lmt search sql =
           runQuery E (markupColumns items) off lmt search sql
             (stagedCon H E d0 (markupColumns items) (markupRows items))"
proof -
  from assms have eq: "loadFileData H readSheet readItems E d0 filePath off lmt search sql =
      stageAndQuery H E d0 (markupColumns items) (markupRows items) off lmt search sql"
    by (simp add: loadFileData_def loadWithXML_def Let_def markupColumns_def markupRows_def)
  with assms(3) have
    "fst (stageAndQuery H E d0 (markupColumns items) (markupRows items) off lmt search sql) = Inr p"
    by simp
  from stageAndQuery_runQuery [OF this] eq show ?thesis
    by simp
qed

lemma loadFileData_engine:
  assumes "detectFileType filePath \<noteq> Excel" and "detectFileType filePath \<noteq> Xml"
    and "fst (loadFileData H readSheet readItems E d0 filePath off lmt search sql) = Inr p"
  shows "loadFileData H readSheet readItems E d0 filePath off lmt search sql =
           afterRegister E off lmt search sql
             (snd (E (registerQuery H filePath) d0), [registerQuery H filePath])"
  using assms
  by (auto simp: loadFileData_def loadWithDuckDB_def con_run_def split: prod.splits option.splits sum.splits)



section \<open>The examples, evaluated\<close>

lemmas text_defs = js_def isWhiteSpace_def trim_def customQuery_def plainQuery_def searchQuery_def
  countQuery_def countProbe_def describeQuery_def natToString.simps intToString_def given_def
  sanitizeColumnName_def escapeQuotes_def needleOf_def likeCondition_def quotedLikeCondition_def
  buildQuery_def

lemmas run_defs = afterRegister_def executeQuery_def runQuery_def runData_def shapeResult_def
  returnData_def queryColumnsOf_def con_all_def con_run_def totalOf_def describedColumns_def
  sanitizeValue_def objectKeys_def getProp_def stringifyBigInt_def bigintToNumber_def
  roundToDouble_def bitLength.simps demoEngine_def

lemma demo_plain:
  "afterRegister demoEngine 0 1 None None (demoTable, []) =
     (Inr \<lparr>columns = [js ''name'', js ''age''], rows = [[JStr (js ''Ann''), JStr (js ''31'')]],
           offset = 0, limit = 1, total = JNum (Fin 2)\<rparr>,
      demoTable, [countProbe, countQuery, describeQuery, plainQuery 1 0])"
  by (simp add: demoTable_def text_defs run_defs)

lemma demo_raw:
  "afterRegister demoEngine 0 1 (Some (js ''Bob'')) (Some (js ''SELECT * FROM data'')) (demoTable, []) =
     (Inr \<lparr>columns = [js ''name'', js ''age''],
           rows = [[JStr (js ''Ann''), JStr (js ''31'')], [JStr (js ''Bob''), JStr (js ''45'')]],
           offset = 0, limit = 1, total = JNum (Fin 2)\<rparr>,
      demoTable, [countProbe, countQuery, describeQuery, js ''SELECT * FROM data''])"
  by (simp add: demoTable_def text_defs run_defs)

lemma demo_sheet_plain:
  "runQuery demoEngine [js ''name'', js ''age''] 0 1 None None (demoTable, []) =
     (Inr \<lparr>columns = [js ''name'', js ''age''], rows = [[JStr (js ''Ann''), JStr (js ''31'')]],
           offset = 0, limit = 1, total = JNum (Fin 2)\<rparr>,
      demoTable, [countQuery, plainQuery 1 0])"
  by (simp add: demoTable_def text_defs run_defs)

lemma demo_sheet_raw:
  "runQuery demoEngine [js ''name'', js ''age''] 0 1 (Some (js ''Bob''))
     (Some (js ''SELECT * FROM data'')) (demoTable, []) =
     (Inr \<lparr>columns = [js ''name'', js ''age''],
           rows = [[JStr (js ''Ann''), JStr (js ''31'')], [JStr (js ''Bob''), JStr (js ''45'')]],
           offset = 0, limit = 1, total = JNum (Fin 2)\<rparr>,
      demoTable, [countQuery, js ''SELECT * FROM data''])"
  by (simp add: demoTable_def text_defs run_defs)

lemma demo_sheet_empty:
  "runQuery demoEngine [js ''name'', js ''age''] 0 1 None (Some (js ''SELECT * FROM data'')) ([], []) =
     (Inr \<lparr>columns = [], rows = [], offset = 0, limit = 1, total = JNum (Fin 0)\<rparr>,
      [], [countQuery, js ''SELECT * FROM data'', js ''SELECT * FROM data LIMIT 0''])"
  by (simp add: text_defs run_defs)

lemma demoEngine_readonly: "snd (demoEngine q d) = d"
  by (simp add: demoEngine_def)


lemma demo_execute:
  "executeQuery demoEngine (plainQuery 1 0) 0 1 (demoTable, []) =
     (Inr \<lparr>columns = [js ''name'', js ''age''], rows = [[JStr (js ''Ann''), JStr (js ''31'')]],
           offset = 0, limit = 1, total = JNum (Fin 2)\<rparr>,
      demoTable, [countQuery, describeQuery, plainQuery 1 0])"
  by (simp add: demoTable_def text_defs run_defs)

lemmas load_defs = loadFileData_def detectFileType_def extname_def toLowerCase_def loadWithDuckDB_def
  registerQuery_def demoHost_def

lemmas stage_defs = loadWithExcelJS_def stageAndQuery_def stagedCon_def createTableQuery_def
  insertQuery_def sqlLiteral_def orElse_def join.simps loadingEngine_def namesSheet_def
  namesCells_def namesTable_def rowMatches_def

lemma names_sheet_search:
  "loadFileData demoHost namesSheet (\<lambda>p. Inr None) loadingEngine [] (js ''/data/names.xlsx'') 0 1
     (Some (js ''Bob'')) None =
     (Inr \<lparr>columns = [js ''name'', js ''city''], rows = [[JStr (js ''Bob''), JStr (js ''Rome'')]],
           offset = 0, limit = 1, total = JNum (Fin 3)\<rparr>,
      namesTable,
      [createTableQuery [js ''name'', js ''city''], insertQuery demoHost namesCells, countQuery,
       buildQuery quotedLikeCondition [js ''name'', js ''city''] 0 1 (Some (js ''Bob'')) None])"
  by (simp add: load_defs stage_defs text_defs run_defs)

lemma names_file_search:
  "loadFileData demoHost namesSheet (\<lambda>p. Inr None) loadingEngine [] (js ''/data/names.csv'') 0 1
     (Some (js ''Bob'')) None =
     (Inr \<lparr>columns = [js ''name'', js ''city''], rows = [[JStr (js ''Bob''), JStr (js ''Rome'')]],
           offset = 0, limit = 1, total = JNum (Fin 3)\<rparr>,
      namesTable,
      [registerQuery demoHost (js ''/data/names.csv''), countProbe, describeQuery, countQuery,
       describeQuery, buildQuery likeCondition [js ''name'', js ''city''] 0 1 (Some (js ''Bob'')) None])"
  by (simp add: load_defs stage_defs text_defs run_defs)

lemma names_staged:
  "stagedCon demoHost loadingEngine [] [js ''name'', js ''city''] namesCells =
     (namesTable, [createTableQuery [js ''name'', js ''city''], insertQuery demoHost namesCells])"
  by (simp add: load_defs stage_defs text_defs run_defs)

lemma names_registered:
  "snd (loadingEngine (registerQuery demoHost (js ''/data/names.csv'')) []) = namesTable"
  by (simp add: loadingEngine_def)

lemma names_readonly:
  "snd (loadingEngine countQuery d) = d" "snd (loadingEngine countProbe d) = d"
  "snd (loadingEngine describeQuery d) = d"
  by (simp_all add: load_defs stage_defs text_defs demoEngine_def)


lemma names_reply:
  "fst (loadingEngine (buildQuery quotedLikeCondition [js ''name'', js ''city''] 0 1 (Some (js ''Bob'')) None)
          namesTable) = Inr [[(js ''name'', JStr (js ''Bob'')), (js ''city'', JStr (js ''Rome''))]]"
  "fst (loadingEngine (buildQuery likeCondition [js ''name'', js ''city''] 0 1 (Some (js ''Bob'')) None)
          namesTable) = Inr [[(js ''name'', JStr (js ''Bob'')), (js ''city'', JStr (js ''Rome''))]]"
  "length (filter (rowMatches (js ''Bob'')) namesTable) = 2"
  by (simp_all add: load_defs stage_defs text_defs)

lemma names_kind:
  "detectFileType (js ''/data/names.xlsx'') = Excel"
  "detectFileType (js ''/data/names.csv'') = Csv"
  by (simp_all add: detectFileType_def js_def extname_def toLowerCase_def)

lemma names_header:
  "namesSheet (js ''/data/names.xlsx'') = Inr ([JStr (js ''name''), JStr (js ''city'')] # namesCells)"
  "those (map sanitizeValue [JStr (js ''name''), JStr (js ''city'')]) = Some [js ''name'', js ''city'']"
  by (simp_all add: namesSheet_def sanitizeValue_def sanitizeColumnName_def js_def isWhiteSpace_def)

lemma names_described:
  "fst (loadingEngine describeQuery (snd (loadingEngine countProbe namesTable))) =
     Inr [[(js ''column_name'', JStr (js ''name''))], [(js ''column_name'', JStr (js ''city''))]]"
  "describedColumns
     [[(js ''column_name'', JStr (js ''name''))], [(js ''column_name'', JStr (js ''city''))]] =
     Some [js ''name'', js ''city'']"
  by (simp_all add: load_defs stage_defs text_defs run_defs)

lemma names_queryState:
  "queryState loadingEngine search sql namesTable = namesTable"
  by (simp add: queryState_def probedState_def names_readonly)

lemma names_honours:
  "honoursLimit loadingEngine
     (buildQuery quotedLikeCondition [js ''name'', js ''city''] 0 1 (Some (js ''Bob'')) None) namesTable 1"
  "honoursLimit loadingEngine
     (buildQuery likeCondition [js ''name'', js ''city''] 0 1 (Some (js ''Bob'')) None) namesTable 1"
  unfolding honoursLimit_def names_reply by simp_all

section \<open>The columns of a page\<close>

text \<open>
  Claim C3.  When a loader resolves with a page, the data statement returned rows.  If
  there is at least one, the columns of the page are the sanitized keys of the first
  returned row and nothing more is sent to the engine.  If there is none, the same
  statement with \<^verbatim>\<open> LIMIT 0\<close> appended is sent next; when that reply has no row either the
  columns are empty, and otherwise they are the sanitized keys of its first row.  This
  holds for \<^verbatim>\<open>runQuery\<close> (spreadsheet and markup files) and for \<^verbatim>\<open>executeQuery\<close> (the
  other files).
\<close>

theorem columns_from_returned_rows:
  "(fst (runQuery E cols off lmt search sql c) = Inr p \<longrightarrow>
      (\<exists>dataRows.
         fst (E (buildQuery quotedLikeCondition cols off lmt search sql) (snd (E countQuery (fst c)))) =
           Inr dataRows \<and>
         (dataRows \<noteq> [] \<longrightarrow>
            columns p = map sanitizeColumnName (objectKeys (hd dataRows)) \<and>
            snd (snd (runQuery E cols off lmt search sql c)) =
              snd c @ [countQuery, buildQuery quotedLikeCondition cols off lmt search sql]) \<and>
         (dataRows = [] \<longrightarrow>
            snd (snd (runQuery E cols off lmt search sql c)) =
              snd c @ [countQuery, buildQuery quotedLikeCondition cols off lmt search sql,
                       buildQuery quotedLikeCondition cols off lmt search sql @ js '' LIMIT 0''] \<and>
            (\<exists>emptyRows.
               fst (E (buildQuery quotedLikeCondition cols off lmt search sql @ js '' LIMIT 0'')
                      (snd (E (buildQuery quotedLikeCondition cols off lmt search sql)
                              (snd (E countQuery (fst c)))))) = Inr emptyRows \<and>
               (emptyRows = [] \<longrightarrow> columns p = []) \<and>
               (emptyRows \<noteq> [] \<longrightarrow>
                  columns p = map sanitizeColumnName (objectKeys (hd emptyRows))))))) \<and>
   (fst (executeQuery E query off lmt c') = Inr p' \<longrightarrow>
      (\<exists>dataRows.
         fst (E query (snd (E describeQuery (snd (E countQuery (fst c')))))) = Inr dataRows \<and>
         (dataRows \<noteq> [] \<longrightarrow>
            columns p' = map sanitizeColumnName (objectKeys (hd dataRows)) \<and>
            snd (snd (executeQuery E query off lmt c')) = snd c' @ [countQuery, describeQuery, query]) \<and>
         (dataRows = [] \<longrightarrow>
            snd (snd (executeQuery E query off lmt c')) =
              snd c' @ [countQuery, describeQuery, query, query @ js '' LIMIT 0''] \<and>
            (\<exists>emptyRows.
               fst (E (query @ js '' LIMIT 0'')
                      (snd (E query (snd (E describeQuery (snd (E countQuery (fst c')))))))) =
                 Inr emptyRows \<and>
               (emptyRows = [] \<longrightarrow> columns p' = []) \<and>
               (emptyRows \<noteq> [] \<longrightarrow>
                  columns p' = map sanitizeColumnName (objectKeys (hd emptyRows)))))))"
proof (intro conjI impI)
  assume ok: "fst (runQuery E cols off lmt search sql c) = Inr p"
  let ?Q = "buildQuery quotedLikeCondition cols off lmt search sql"
  from runQuery_page [OF ok] obtain countRows tot where
    eq: "runQuery E cols off lmt search sql c =
           runData (\<lambda>err. Error (js ''Hey! Dude please enter correct SQL..'')) E ?Q off lmt tot
             (snd (E countQuery (fst c)), snd c @ [countQuery])"
    by blast
  from ok have "fst (runData (\<lambda>err. Error (js ''Hey! Dude please enter correct SQL..'')) E ?Q off lmt tot
             (snd (E countQuery (fst c)), snd c @ [countQuery])) = Inr p"
    by (simp add: eq)
  from runData_page [OF this]
  show "\<exists>dataRows.
         fst (E ?Q (snd (E countQuery (fst c)))) = Inr dataRows \<and>
         (dataRows \<noteq> [] \<longrightarrow>
            columns p = map sanitizeColumnName (objectKeys (hd dataRows)) \<and>
            snd (snd (runQuery E cols off lmt search sql c)) = snd c @ [countQuery, ?Q]) \<and>
         (dataRows = [] \<longrightarrow>
            snd (snd (runQuery E cols off lmt search sql c)) =
              snd c @ [countQuery, ?Q, ?Q @ js '' LIMIT 0''] \<and>
            (\<exists>emptyRows.
               fst (E (?Q @ js '' LIMIT 0'') (snd (E ?Q (snd (E countQuery (fst c)))))) = Inr emptyRows \<and>
               (emptyRows = [] \<longrightarrow> columns p = []) \<and>
               (emptyRows \<noteq> [] \<longrightarrow>
                  columns p = map sanitizeColumnName (objectKeys (hd emptyRows)))))"
    unfolding eq by (fastforce simp: queryColumnsOf_def split: list.splits)
next
  assume ok: "fst (executeQuery E query off lmt c') = Inr p'"
  from executeQuery_page [OF ok] obtain tot where
    eq: "executeQuery E query off lmt c' =
           runData Host E query off lmt tot
             (snd (E describeQuery (snd (E countQuery (fst c')))), snd c' @ [countQuery, describeQuery])"
    by blast
  from ok have "fst (runData Host E query off lmt tot
             (snd (E describeQuery (snd (E countQuery (fst c')))), snd c' @ [countQuery, describeQuery])) = Inr p'"
    by (simp add: eq)
  from runData_page [OF this]
  show "\<exists>dataRows.
         fst (E query (snd (E describeQuery (snd (E countQuery (fst c')))))) = Inr dataRows \<and>
         (dataRows \<noteq> [] \<longrightarrow>
            columns p' = map sanitizeColumnName (objectKeys (hd dataRows)) \<and>
            snd (snd (executeQuery E query off lmt c')) = snd c' @ [countQuery, describeQuery, query]) \<and>
         (dataRows = [] \<longrightarrow>
            snd (snd (executeQuery E query off lmt c')) =
              snd c' @ [countQuery, describeQuery, query, query @ js '' LIMIT 0''] \<and>
            (\<exists>emptyRows.
               fst (E (query @ js '' LIMIT 0'')
                      (snd (E query (snd (E describeQuery (snd (E countQuery (fst c')))))))) =
                 Inr emptyRows \<and>
               (emptyRows = [] \<longrightarrow> columns p' = []) \<and>
               (emptyRows \<noteq> [] \<longrightarrow>
                  columns p' = map sanitizeColumnName (objectKeys (hd emptyRows)))))"
    unfolding eq by (fastforce simp: queryColumnsOf_def split: list.splits)
qed


theorem columns_from_returned_rows_witness:
  "fst (runQuery demoEngine [js ''name'', js ''age''] 0 1 None (Some (js ''SELECT * FROM data'')) ([], [])) =
     Inr \<lparr>columns = [], rows = [], offset = 0, limit = 1, total = JNum (Fin 0)\<rparr> \<and>
   fst (executeQuery demoEngine (plainQuery 1 0) 0 1 (demoTable, [])) =
     Inr \<lparr>columns = [js ''name'', js ''age''], rows = [[JStr (js ''Ann''), JStr (js ''31'')]],
          offset = 0, limit = 1, total = JNum (Fin 2)\<rparr> \<and>
   [js ''name'', js ''age''] = map sanitizeColumnName (objectKeys (hd demoTable)) \<and>
   snd (snd (runQuery demoEngine [js ''name'', js ''age''] 0 1 None (Some (js ''SELECT * FROM data''))
              ([], []))) =
     [countQuery, js ''SELECT * FROM data'', js ''SELECT * FROM data'' @ js '' LIMIT 0'']"
proof -
  let ?P = "\<lparr>columns = [], rows = [], offset = 0, limit = 1, total = JNum (Fin 0)\<rparr>"
  let ?P' = "\<lparr>columns = [js ''name'', js ''age''], rows = [[JStr (js ''Ann''), JStr (js ''31'')]],
          offset = 0, limit = 1, total = JNum (Fin 2)\<rparr>"
  have A: "fst (runQuery demoEngine [js ''name'', js ''age''] 0 1 None
                  (Some (js ''SELECT * FROM data'')) ([], [])) = Inr ?P"
    by (simp only: demo_sheet_empty fst_conv)
  have B: "fst (executeQuery demoEngine (plainQuery 1 0) 0 1 (demoTable, [])) = Inr ?P'"
    by (simp only: demo_execute fst_conv)
  have D: "snd (snd (runQuery demoEngine [js ''name'', js ''age''] 0 1 None
                  (Some (js ''SELECT * FROM data'')) ([], []))) =
           [countQuery, js ''SELECT * FROM data'', js ''SELECT * FROM data'' @ js '' LIMIT 0'']"
    by (simp only: demo_sheet_empty snd_conv) (simp add: js_def)
  note T = columns_from_returned_rows
    [of demoEngine "[js ''name'', js ''age'']" 0 1 None "Some (js ''SELECT * FROM data'')" "([], [])"
        ?P "plainQuery 1 0" "(demoTable, [])" ?P']
  note Y = T [THEN conjunct2, THEN mp, OF B]
  have R: "fst (demoEngine (plainQuery 1 0)
             (snd (demoEngine describeQuery (snd (demoEngine countQuery (fst (demoTable, []))))))) =
           Inr [hd demoTable]"
    by (simp add: demoEngine_readonly) (simp add: demoEngine_def demoTable_def text_defs)
  from Y R have "columns ?P' = map sanitizeColumnName (objectKeys (hd [hd demoTable]))"
    by auto
  then have C: "[js ''name'', js ''age''] = map sanitizeColumnName (objectKeys (hd demoTable))"
    by simp
  from A B C D show ?thesis
    by blast
qed

section \<open>The size of a page\<close>

lemma runData_rows:
  assumes "fst (runData onError E query off lmt tot c) = Inr p"
  shows "\<exists>dataRows. fst (E query (fst c)) = Inr dataRows \<and> length (rows p) = length dataRows \<and>
           list_all (\<lambda>r. length r = length (columns p)) (rows p)"
proof -
  from runData_page [OF assms] obtain dataRows where
    r: "fst (E query (fst c)) = Inr dataRows"
    and m: "rows p = map (\<lambda>r. map (\<lambda>col. stringifyBigInt (getProp r col)) (columns p)) dataRows"
    by blast
  have "length (rows p) = length dataRows"
    by (subst m) simp
  moreover have "list_all (\<lambda>r. length r = length (columns p))
      (map (\<lambda>r. map (\<lambda>col. stringifyBigInt (getProp r col)) (columns p)) dataRows)"
    by (simp add: list_all_iff)
  then have "list_all (\<lambda>r. length r = length (columns p)) (rows p)"
    by (simp only: m [symmetric])
  ultimately show ?thesis
    using r by blast
qed

lemma runQuery_rows:
  assumes "fst (runQuery E cols off lmt search sql c) = Inr p"
  shows "\<exists>dataRows.
           fst (E (buildQuery quotedLikeCondition cols off lmt search sql) (snd (E countQuery (fst c)))) =
             Inr dataRows \<and>
           length (rows p) = length dataRows \<and>
           list_all (\<lambda>r. length r = length (columns p)) (rows p)"
proof -
  from runQuery_runData [OF assms] obtain tot where
    eq: "runQuery E cols off lmt search sql c =
           runData (\<lambda>err. Error (js ''Hey! Dude please enter correct SQL..'')) E
             (buildQuery quotedLikeCondition cols off lmt search sql) off lmt tot
             (snd (E countQuery (fst c)), snd c @ [countQuery])"
    by blast
  from assms have "fst (runData (\<lambda>err. Error (js ''Hey! Dude please enter correct SQL..'')) E
             (buildQuery quotedLikeCondition cols off lmt search sql) off lmt tot
             (snd (E countQuery (fst c)), snd c @ [countQuery])) = Inr p"
    by (simp only: eq)
  from runData_rows [OF this] show ?thesis
    by (simp only: fst_conv)
qed

lemma afterRegister_rows:
  assumes "fst (afterRegister E off lmt search sql c) = Inr p"
  shows "\<exists>cols dataRows.
           (\<not> given sql \<and> given search \<longrightarrow>
              (\<exists>colRows. fst (E describeQuery (snd (E countProbe (fst c)))) = Inr colRows \<and>
                 describedColumns colRows = Some cols)) \<and>
           fst (E (buildQuery likeCondition cols off lmt search sql) (queryState E search sql (fst c))) =
             Inr dataRows \<and>
           length (rows p) = length dataRows \<and>
           list_all (\<lambda>r. length r = length (columns p)) (rows p)"
proof -
  from afterRegister_page [OF assms] obtain cols cX where
    eq: "afterRegister E off lmt search sql c =
           executeQuery E (buildQuery likeCondition cols off lmt search sql) off lmt cX"
    and st: "fst cX = (if \<not> given sql \<and> given search
                     then snd (E describeQuery (snd (E countProbe (fst c))))
                     else snd (E countProbe (fst c)))"
    and dc: "\<not> given sql \<and> given search \<longrightarrow>
              (\<exists>colRows. fst (E describeQuery (snd (E countProbe (fst c)))) = Inr colRows \<and>
                 describedColumns colRows = Some cols)"
    by blast
  from st have qs: "snd (E describeQuery (snd (E countQuery (fst cX)))) = queryState E search sql (fst c)"
    by (simp add: queryState_def probedState_def)
  from eq assms have ex: "fst (executeQuery E (buildQuery likeCondition cols off lmt search sql) off lmt cX) = Inr p"
    by simp
  from executeQuery_runData [OF ex] obtain tot where
    eq2: "executeQuery E (buildQuery likeCondition cols off lmt search sql) off lmt cX =
       runData Host E (buildQuery likeCondition cols off lmt search sql) off lmt tot
         (snd (E describeQuery (snd (E countQuery (fst cX)))), snd cX @ [countQuery, describeQuery])"
    by blast
  from ex have "fst (runData Host E (buildQuery likeCondition cols off lmt search sql) off lmt tot
         (snd (E describeQuery (snd (E countQuery (fst cX)))), snd cX @ [countQuery, describeQuery])) = Inr p"
    by (simp only: eq2)
  from runData_rows [OF this] obtain dataRows where
    "fst (E (buildQuery likeCondition cols off lmt search sql)
            (snd (E describeQuery (snd (E countQuery (fst cX)))))) = Inr dataRows"
    and l: "length (rows p) = length dataRows"
    and w: "list_all (\<lambda>r. length r = length (columns p)) (rows p)"
    by (auto simp only: fst_conv)
  then have "fst (E (buildQuery likeCondition cols off lmt search sql) (queryState E search sql (fst c))) =
      Inr dataRows"
    by (simp only: qs)
  with dc l w show ?thesis
    by blast
qed

lemma honoursLimit_reply:
  "honoursLimit E q d n \<Longrightarrow> fst (E q d) = Inr rs \<Longrightarrow> length rs \<le> n"
  by (simp add: honoursLimit_def)

lemma select_where: "js ''SELECT * FROM data WHERE '' = js ''SELECT * FROM data'' @ js '' WHERE ''"
  by (simp add: js_def)

lemma select_limit: "js ''SELECT * FROM data LIMIT '' = js ''SELECT * FROM data'' @ js '' LIMIT ''"
  by (simp add: js_def)

lemma buildQuery_limit_clause:
  assumes "\<not> given sql"
  shows "\<exists>body. buildQuery condition cols off lmt search sql =
           js ''SELECT * FROM data'' @ body @ js '' LIMIT '' @ natToString lmt @ js '' OFFSET '' @
           natToString off"
proof (cases "given search")
  case True
  with assms have "buildQuery condition cols off lmt search sql =
      searchQuery (join (js '' OR '') (map (condition (needleOf (the search))) cols)) lmt off"
    by (simp only: buildQuery_def if_True if_False)
  then have eq: "buildQuery condition cols off lmt search sql =
      js ''SELECT * FROM data'' @
      (js '' WHERE '' @ join (js '' OR '') (map (condition (needleOf (the search))) cols)) @
      js '' LIMIT '' @ natToString lmt @ js '' OFFSET '' @ natToString off"
    by (simp only: searchQuery_def select_where append_assoc)
  show ?thesis
    by (rule exI) (rule eq)
next
  case False
  with assms have "buildQuery condition cols off lmt search sql = plainQuery lmt off"
    by (simp only: buildQuery_def if_True if_False)
  then have eq: "buildQuery condition cols off lmt search sql =
      js ''SELECT * FROM data'' @ [] @ js '' LIMIT '' @ natToString lmt @ js '' OFFSET '' @
      natToString off"
    by (simp only: plainQuery_def select_limit append_assoc append_Nil)
  show ?thesis
    by (rule exI) (rule eq)
qed

lemma runQuery_limit:
  assumes "fst (runQuery E cols off lmt search sql c) = Inr p"
  shows "list_all (\<lambda>r. length r = length (columns p)) (rows p) \<and>
         (\<exists>dataRows.
            fst (E (buildQuery quotedLikeCondition cols off lmt search sql) (snd (E countQuery (fst c)))) =
              Inr dataRows \<and>
            length (rows p) = length dataRows) \<and>
         (honoursLimit E (buildQuery quotedLikeCondition cols off lmt search sql)
            (snd (E countQuery (fst c))) lmt \<longrightarrow> length (rows p) \<le> lmt)"
proof -
  from runQuery_rows [OF assms] obtain dataRows where
    r: "fst (E (buildQuery quotedLikeCondition cols off lmt search sql) (snd (E countQuery (fst c)))) =
          Inr dataRows"
    and l: "length (rows p) = length dataRows"
    and w: "list_all (\<lambda>r. length r = length (columns p)) (rows p)"
    by blast
  have "length (rows p) \<le> lmt"
    if "honoursLimit E (buildQuery quotedLikeCondition cols off lmt search sql)
          (snd (E countQuery (fst c))) lmt"
    using honoursLimit_reply [OF that r] l by simp
  with r l w show ?thesis
    by blast
qed

lemma afterRegister_limit:
  assumes "fst (afterRegister E off lmt search sql c) = Inr p"
  shows "list_all (\<lambda>r. length r = length (columns p)) (rows p) \<and>
         (\<exists>cols dataRows.
            (\<not> given sql \<and> given search \<longrightarrow>
               (\<exists>colRows. fst (E describeQuery (snd (E countProbe (fst c)))) = Inr colRows \<and>
                  describedColumns colRows = Some cols)) \<and>
            fst (E (buildQuery likeCondition cols off lmt search sql) (queryState E search sql (fst c))) =
              Inr dataRows \<and>
            length (rows p) = length dataRows \<and>
            (honoursLimit E (buildQuery likeCondition cols off lmt search sql)
               (queryState E search sql (fst c)) lmt \<longrightarrow> length (rows p) \<le> lmt))"
proof -
  from afterRegister_rows [OF assms] obtain cols dataRows where
    dc: "\<not> given sql \<and> given search \<longrightarrow>
              (\<exists>colRows. fst (E describeQuery (snd (E countProbe (fst c)))) = Inr colRows \<and>
                 describedColumns colRows = Some cols)"
    and r: "fst (E (buildQuery likeCondition cols off lmt search sql) (queryState E search sql (fst c))) =
          Inr dataRows"
    and l: "length (rows p) = length dataRows"
    and w: "list_all (\<lambda>r. length r = length (columns p)) (rows p)"
    by blast
  have "length (rows p) \<le> lmt"
    if "honoursLimit E (buildQuery likeCondition cols off lmt search sql)
          (queryState E search sql (fst c)) lmt"
    using honoursLimit_reply [OF that r] l by simp
  with dc r l w show ?thesis
    by blast
qed

text \<open>
  Claim C5 fails as stated: custom SQL is run as written, with no \<^verbatim>\<open>LIMIT\<close> added, so
  the page holds every row the statement returns.  On the two-row example table, a request
  with limit 1 and the custom statement \<^verbatim>\<open>SELECT * FROM data\<close> gets a page of two rows.
\<close>

theorem custom_sql_page_exceeds_limit:
  "fst (afterRegister demoEngine 0 1 (Some (js ''Bob'')) (Some (js ''SELECT * FROM data''))
          (demoTable, [])) =
     Inr \<lparr>columns = [js ''name'', js ''age''],
          rows = [[JStr (js ''Ann''), JStr (js ''31'')], [JStr (js ''Bob''), JStr (js ''45'')]],
          offset = 0, limit = 1, total = JNum (Fin 2)\<rparr> \<and>
   \<not> length [[JStr (js ''Ann''), JStr (js ''31'')], [JStr (js ''Bob''), JStr (js ''45'')]] \<le> (1::nat)"
  by (rule conjI) (simp only: demo_raw fst_conv, simp)

text \<open>
  Claim C5, amended.  In every page that a load resolves with, each row has as many
  values as the page has columns, and the page has exactly as many rows as the engine
  returned for the data statement of that load, in the database state in which the load
  ran it: after the staging and the count for a spreadsheet or a markup file, after the
  register statement, the probes, the count and the describe for the other files.  So the
  page has at most \<open>limit\<close> rows whenever that reply has at most \<open>limit\<close> rows.  For a
  request without custom SQL the data statement carries the clause
  \<^verbatim>\<open>LIMIT <limit> OFFSET <offset>\<close> at its end; custom SQL is run as written.  The first
  two parts state this for \<^verbatim>\<open>runQuery\<close> and for the callback of the register statement
  on any connection, the last three for \<^verbatim>\<open>loadFileData\<close> by kind of file.
\<close>

theorem page_rows_and_limit:
  "(fst (runQuery E cols off lmt search sql c) = Inr p \<longrightarrow>
      list_all (\<lambda>r. length r = length (columns p)) (rows p) \<and>
      (\<exists>dataRows.
         fst (E (buildQuery quotedLikeCondition cols off lmt search sql) (snd (E countQuery (fst c)))) =
           Inr dataRows \<and>
         length (rows p) = length dataRows) \<and>
      (honoursLimit E (buildQuery quotedLikeCondition cols off lmt search sql)
         (snd (E countQuery (fst c))) lmt \<longrightarrow> length (rows p) \<le> lmt)) \<and>
   (fst (afterRegister E off lmt search sql c') = Inr p' \<longrightarrow>
      list_all (\<lambda>r. length r = length (columns p')) (rows p') \<and>
      (\<exists>cols' dataRows.
         (\<not> given sql \<and> given search \<longrightarrow>
            (\<exists>colRows. fst (E describeQuery (snd (E countProbe (fst c')))) = Inr colRows \<and>
               describedColumns colRows = Some cols')) \<and>
         fst (E (buildQuery likeCondition cols' off lmt search sql) (queryState E search sql (fst c'))) =
           Inr dataRows \<and>
         length (rows p') = length dataRows \<and>
         (honoursLimit E (buildQuery likeCondition cols' off lmt search sql)
            (queryState E search sql (fst c')) lmt \<longrightarrow> length (rows p') \<le> lmt))) \<and>
   (\<not> given sql \<longrightarrow>
      (\<exists>body. buildQuery condition cols off lmt search sql =
         js ''SELECT * FROM data'' @ body @ js '' LIMIT '' @ natToString lmt @ js '' OFFSET '' @
         natToString off)) \<and>
   (detectFileType filePath = Excel \<and> readSheet filePath = Inr (rawColumns # cells) \<and>
    those (map sanitizeValue rawColumns) = Some scols \<and>
    fst (loadFileData H readSheet readItems E d0 filePath off lmt search sql) = Inr p1 \<longrightarrow>
      list_all (\<lambda>r. length r = length (columns p1)) (rows p1) \<and>
      (\<exists>dataRows.
         fst (E (buildQuery quotedLikeCondition scols off lmt search sql)
                (snd (E countQuery (fst (stagedCon H E d0 scols cells))))) = Inr dataRows \<and>
         length (rows p1) = length dataRows) \<and>
      (honoursLimit E (buildQuery quotedLikeCondition scols off lmt search sql)
         (snd (E countQuery (fst (stagedCon H E d0 scols cells)))) lmt \<longrightarrow>
         length (rows p1) \<le> lmt)) \<and>
   (detectFileType filePath = Xml \<and> readItems filePath = Inr (Some items) \<and>
    fst (loadFileData H readSheet readItems E d0 filePath off lmt search sql) = Inr p2 \<longrightarrow>
      list_all (\<lambda>r. length r = length (columns p2)) (rows p2) \<and>
      (\<exists>dataRows.
         fst (E (buildQuery quotedLikeCondition (markupColumns items) off lmt search sql)
                (snd (E countQuery
                   (fst (stagedCon H E d0 (markupColumns items) (markupRows items)))))) = Inr dataRows \<and>
         length (rows p2) = length dataRows) \<and>
      (honoursLimit E (buildQuery quotedLikeCondition (markupColumns items) off lmt search sql)
         (snd (E countQuery (fst (stagedCon H E d0 (markupColumns items) (markupRows items))))) lmt \<longrightarrow>
         length (rows p2) \<le> lmt)) \<and>
   (detectFileType filePath \<noteq> Excel \<and> detectFileType filePath \<noteq> Xml \<and>
    fst (loadFileData H readSheet readItems E d0 filePath off lmt search sql) = Inr p3 \<longrightarrow>
      list_all (\<lambda>r. length r = length (columns p3)) (rows p3) \<and>
      (\<exists>cols' dataRows.
         (\<not> given sql \<and> given search \<longrightarrow>
            (\<exists>colRows.
               fst (E describeQuery (snd (E countProbe (snd (E (registerQuery H filePath) d0))))) =
                 Inr colRows \<and>
               describedColumns colRows = Some cols')) \<and>
         fst (E (buildQuery likeCondition cols' off lmt search sql)
                (queryState E search sql (snd (E (registerQuery H filePath) d0)))) = Inr dataRows \<and>
         length (rows p3) = length dataRows \<and>
         (honoursLimit E (buildQuery likeCondition cols' off lmt search sql)
            (queryState E search sql (snd (E (registerQuery H filePath) d0))) lmt \<longrightarrow>
            length (rows p3) \<le> lmt)))"
proof (intro conjI)
  show "fst (runQuery E cols off lmt search sql c) = Inr p \<longrightarrow>
      list_all (\<lambda>r. length r = length (columns p)) (rows p) \<and>
      (\<exists>dataRows.
         fst (E (buildQuery quotedLikeCondition cols off lmt search sql) (snd (E countQuery (fst c)))) =
           Inr dataRows \<and>
         length (rows p) = length dataRows) \<and>
      (honoursLimit E (buildQuery quotedLikeCondition cols off lmt search sql)
         (snd (E countQuery (fst c))) lmt \<longrightarrow> length (rows p) \<le> lmt)"
    by (rule impI) (rule runQuery_limit)
next
  show "fst (afterRegister E off lmt search sql c') = Inr p' \<longrightarrow>
      list_all (\<lambda>r. length r = length (columns p')) (rows p') \<and>
      (\<exists>cols' dataRows.
         (\<not> given sql \<and> given search \<longrightarrow>
            (\<exists>colRows. fst (E describeQuery (snd (E countProbe (fst c')))) = Inr colRows \<and>
               describedColumns colRows = Some cols')) \<and>
         fst (E (buildQuery likeCondition cols' off lmt search sql) (queryState E search sql (fst c'))) =
           Inr dataRows \<and>
         length (rows p') = length dataRows \<and>
         (honoursLimit E (buildQuery likeCondition cols' off lmt search sql)
            (queryState E search sql (fst c')) lmt \<longrightarrow> length (rows p') \<le> lmt))"
    by (rule impI) (rule afterRegister_limit)
next
  show "\<not> given sql \<longrightarrow>
      (\<exists>body. buildQuery condition cols off lmt search sql =
         js ''SELECT * FROM data'' @ body @ js '' LIMIT '' @ natToString lmt @ js '' OFFSET '' @
         natToString off)"
    by (rule impI) (rule buildQuery_limit_clause)
next
  show "detectFileType filePath = Excel \<and> readSheet filePath = Inr (rawColumns # cells) \<and>
    those (map sanitizeValue rawColumns) = Some scols \<and>
    fst (loadFileData H readSheet readItems E d0 filePath off lmt search sql) = Inr p1 \<longrightarrow>
      list_all (\<lambda>r. length r = length (columns p1)) (rows p1) \<and>
      (\<exists>dataRows.
         fst (E (buildQuery quotedLikeCondition scols off lmt search sql)
                (snd (E countQuery (fst (stagedCon H E d0 scols cells))))) = Inr dataRows \<and>
         length (rows p1) = length dataRows) \<and>
      (honoursLimit E (buildQuery quotedLikeCondition scols off lmt search sql)
         (snd (E countQuery (fst (stagedCon H E d0 scols cells)))) lmt \<longrightarrow>
         length (rows p1) \<le> lmt)"
  proof
    assume h: "detectFileType filePath = Excel \<and> readSheet filePath = Inr (rawColumns # cells) \<and>
      those (map sanitizeValue rawColumns) = Some scols \<and>
      fst (loadFileData H readSheet readItems E d0 filePath off lmt search sql) = Inr p1"
    then have "loadFileData H readSheet readItems E d0 filePath off lmt search sql =
        runQuery E scols off lmt search sql (stagedCon H E d0 scols cells)"
      by (intro loadFileData_sheet [of filePath readSheet rawColumns cells scols]) blast+
    with h have "fst (runQuery E scols off lmt search sql (stagedCon H E d0 scols cells)) = Inr p1"
      by simp
    then show "list_all (\<lambda>r. length r = length (columns p1)) (rows p1) \<and>
      (\<exists>dataRows.
         fst (E (buildQuery quotedLikeCondition scols off lmt search sql)
                (snd (E countQuery (fst (stagedCon H E d0 scols cells))))) = Inr dataRows \<and>
         length (rows p1) = length dataRows) \<and>
      (honoursLimit E (buildQuery quotedLikeCondition scols off lmt search sql)
         (snd (E countQuery (fst (stagedCon H E d0 scols cells)))) lmt \<longrightarrow>
         length (rows p1) \<le> lmt)"
      by (rule runQuery_limit)
  qed
next
  show "detectFileType filePath = Xml \<and> readItems filePath = Inr (Some items) \<and>
    fst (loadFileData H readSheet readItems E d0 filePath off lmt search sql) = Inr p2 \<longrightarrow>
      list_all (\<lambda>r. length r = length (columns p2)) (rows p2) \<and>
      (\<exists>dataRows.
         fst (E (buildQuery quotedLikeCondition (markupColumns items) off lmt search sql)
                (snd (E countQuery
                   (fst (stagedCon H E d0 (markupColumns items) (markupRows items)))))) = Inr dataRows \<and>
         length (rows p2) = length dataRows) \<and>
      (honoursLimit E (buildQuery quotedLikeCondition (markupColumns items) off lmt search sql)
         (snd (E countQuery (fst (stagedCon H E d0 (markupColumns items) (markupRows items))))) lmt \<longrightarrow>
         length (rows p2) \<le> lmt)"
  proof
    assume h: "detectFileType filePath = Xml \<and> readItems filePath = Inr (Some items) \<and>
      fst (loadFileData H readSheet readItems E d0 filePath off lmt search sql) = Inr p2"
    then have "loadFileData H readSheet readItems E d0 filePath off lmt search sql =
        runQuery E (markupColumns items) off lmt search sql
          (stagedCon H E d0 (markupColumns items) (markupRows items))"
      by (intro loadFileData_markup [of filePath readItems items]) blast+
    with h have "fst (runQuery E (markupColumns items) off lmt search sql
          (stagedCon H E d0 (markupColumns items) (markupRows items))) = Inr p2"
      by simp
    then show "list_all (\<lambda>r. length r = length (columns p2)) (rows p2) \<and>
      (\<exists>dataRows.
         fst (E (buildQuery quotedLikeCondition (markupColumns items) off lmt search sql)
                (snd (E countQuery
                   (fst (stagedCon H E d0 (markupColumns items) (markupRows items)))))) = Inr dataRows \<and>
         length (rows p2) = length dataRows) \<and>
      (honoursLimit E (buildQuery quotedLikeCondition (markupColumns items) off lmt search sql)
         (snd (E countQuery (fst (stagedCon H E d0 (markupColumns items) (markupRows items))))) lmt \<longrightarrow>
         length (rows p2) \<le> lmt)"
      by (rule runQuery_limit)
  qed
next
  show "detectFileType filePath \<noteq> Excel \<and> detectFileType filePath \<noteq> Xml \<and>
    fst (loadFileData H readSheet readItems E d0 filePath off lmt search sql) = Inr p3 \<longrightarrow>
      list_all (\<lambda>r. length r = length (columns p3)) (rows p3) \<and>
      (\<exists>cols' dataRows.
         (\<not> given sql \<and> given search \<longrightarrow>
            (\<exists>colRows.
               fst (E describeQuery (snd (E countProbe (snd (E (registerQuery H filePath) d0))))) =
                 Inr colRows \<and>
               describedColumns colRows = Some cols')) \<and>
         fst (E (buildQuery likeCondition cols' off lmt search sql)
                (queryState E search sql (snd (E (registerQuery H filePath) d0)))) = Inr dataRows \<and>
         length (rows p3) = length dataRows \<and>
         (honoursLimit E (buildQuery likeCondition cols' off lmt search sql)
            (queryState E search sql (snd (E (registerQuery H filePath) d0))) lmt \<longrightarrow>
            length (rows p3) \<le> lmt))"
  proof
    assume h: "detectFileType filePath \<noteq> Excel \<and> detectFileType filePath \<noteq> Xml \<and>
      fst (loadFileData H readSheet readItems E d0 filePath off lmt search sql) = Inr p3"
    then have "loadFileData H readSheet readItems E d0 filePath off lmt search sql =
        afterRegister E off lmt search sql
          (snd (E (registerQuery H filePath) d0), [registerQuery H filePath])"
      by (intro loadFileData_engine [of filePath]) blast+
    with h have "fst (afterRegister E off lmt search sql
          (snd (E (registerQuery H filePath) d0), [registerQuery H filePath])) = Inr p3"
      by simp
    from afterRegister_limit [OF this]
    show "list_all (\<lambda>r. length r = length (columns p3)) (rows p3) \<and>
      (\<exists>cols' dataRows.
         (\<not> given sql \<and> given search \<longrightarrow>
            (\<exists>colRows.
               fst (E describeQuery (snd (E countProbe (snd (E (registerQuery H filePath) d0))))) =
                 Inr colRows \<and>
               describedColumns colRows = Some cols')) \<and>
         fst (E (buildQuery likeCondition cols' off lmt search sql)
                (queryState E search sql (snd (E (registerQuery H filePath) d0)))) = Inr dataRows \<and>
         length (rows p3) = length dataRows \<and>
         (honoursLimit E (buildQuery likeCondition cols' off lmt search sql)
            (queryState E search sql (snd (E (registerQuery H filePath) d0))) lmt \<longrightarrow>
            length (rows p3) \<le> lmt))"
      by (simp only: fst_conv)
  qed
qed

theorem page_rows_and_limit_witness:
  "detectFileType (js ''/data/names.xlsx'') = Excel \<and>
   namesSheet (js ''/data/names.xlsx'') = Inr ([JStr (js ''name''), JStr (js ''city'')] # namesCells) \<and>
   those (map sanitizeValue [JStr (js ''name''), JStr (js ''city'')]) = Some [js ''name'', js ''city''] \<and>
   fst (loadFileData demoHost namesSheet (\<lambda>p. Inr None) loadingEngine [] (js ''/data/names.xlsx'') 0 1
          (Some (js ''Bob'')) None) =
     Inr \<lparr>columns = [js ''name'', js ''city''], rows = [[JStr (js ''Bob''), JStr (js ''Rome'')]],
          offset = 0, limit = 1, total = JNum (Fin 3)\<rparr> \<and>
   honoursLimit loadingEngine
     (buildQuery quotedLikeCondition [js ''name'', js ''city''] 0 1 (Some (js ''Bob'')) None)
     (snd (loadingEngine countQuery
        (fst (stagedCon demoHost loadingEngine [] [js ''name'', js ''city''] namesCells)))) 1 \<and>
   detectFileType (js ''/data/names.csv'') \<noteq> Excel \<and> detectFileType (js ''/data/names.csv'') \<noteq> Xml \<and>
   fst (loadFileData demoHost namesSheet (\<lambda>p. Inr None) loadingEngine [] (js ''/data/names.csv'') 0 1
          (Some (js ''Bob'')) None) =
     Inr \<lparr>columns = [js ''name'', js ''city''], rows = [[JStr (js ''Bob''), JStr (js ''Rome'')]],
          offset = 0, limit = 1, total = JNum (Fin 3)\<rparr> \<and>
   honoursLimit loadingEngine
     (buildQuery likeCondition [js ''name'', js ''city''] 0 1 (Some (js ''Bob'')) None)
     (queryState loadingEngine (Some (js ''Bob'')) None
        (snd (loadingEngine (registerQuery demoHost (js ''/data/names.csv'')) []))) 1 \<and>
   fst (loadingEngine
          (buildQuery quotedLikeCondition [js ''name'', js ''city''] 0 1 (Some (js ''Bob'')) None)
          namesTable) = Inr [[(js ''name'', JStr (js ''Bob'')), (js ''city'', JStr (js ''Rome''))]] \<and>
   length (filter (rowMatches (js ''Bob'')) namesTable) = 2 \<and>
   length (rows \<lparr>columns = [js ''name'', js ''city''], rows = [[JStr (js ''Bob''), JStr (js ''Rome'')]],
          offset = 0, limit = 1, total = JNum (Fin 3)\<rparr>) \<le> 1"
proof -
  let ?P = "\<lparr>columns = [js ''name'', js ''city''], rows = [[JStr (js ''Bob''), JStr (js ''Rome'')]],
          offset = 0, limit = 1, total = JNum (Fin 3)\<rparr>"
  let ?Q = "buildQuery quotedLikeCondition [js ''name'', js ''city''] 0 1 (Some (js ''Bob'')) None"
  have A: "fst (loadFileData demoHost namesSheet (\<lambda>p. Inr None) loadingEngine []
             (js ''/data/names.xlsx'') 0 1 (Some (js ''Bob'')) None) = Inr ?P"
    by (simp only: names_sheet_search fst_conv)
  have B: "fst (loadFileData demoHost namesSheet (\<lambda>p. Inr None) loadingEngine []
             (js ''/data/names.csv'') 0 1 (Some (js ''Bob'')) None) = Inr ?P"
    by (simp only: names_file_search fst_conv)
  have S: "snd (loadingEngine countQuery
        (fst (stagedCon demoHost loadingEngine [] [js ''name'', js ''city''] namesCells))) = namesTable"
    by (simp only: names_staged fst_conv names_readonly)
  have HQ: "honoursLimit loadingEngine ?Q
     (snd (loadingEngine countQuery
        (fst (stagedCon demoHost loadingEngine [] [js ''name'', js ''city''] namesCells)))) 1"
    by (simp only: S names_honours)
  have HL: "honoursLimit loadingEngine
     (buildQuery likeCondition [js ''name'', js ''city''] 0 1 (Some (js ''Bob'')) None)
     (queryState loadingEngine (Some (js ''Bob'')) None
        (snd (loadingEngine (registerQuery demoHost (js ''/data/names.csv'')) []))) 1"
    by (simp only: names_registered names_queryState names_honours)
  have K: "detectFileType (js ''/data/names.csv'') \<noteq> Excel" "detectFileType (js ''/data/names.csv'') \<noteq> Xml"
    by (simp_all add: names_kind)
  note T = page_rows_and_limit
    [where E = loadingEngine and H = demoHost and readSheet = namesSheet
       and readItems = "\<lambda>p. Inr None" and ?d0.0 = "[]" and filePath = "js ''/data/names.xlsx''"
       and off = 0 and lmt = 1 and search = "Some (js ''Bob'')" and sql = None
       and rawColumns = "[JStr (js ''name''), JStr (js ''city'')]" and cells = namesCells
       and scols = "[js ''name'', js ''city'']" and ?p1.0 = ?P]
  from T [THEN conjunct2, THEN conjunct2, THEN conjunct2, THEN conjunct1, THEN mp,
          OF conjI [OF names_kind(1) conjI [OF names_header(1) conjI [OF names_header(2) A]]],
          THEN conjunct2, THEN conjunct2, THEN mp, OF HQ]
  have L: "length (rows ?P) \<le> 1" .
  from names_kind(1) names_header A HQ K B HL names_reply(1) names_reply(3) L show ?thesis
    by (intro conjI)
qed

section \<open>Values of a page; names used in generated statements\<close>

lemma stringifyBigInt_bigint: "stringifyBigInt (JBigInt i) = JStr (intToString i)"
  by (simp add: stringifyBigInt_def)

lemma stringifyBigInt_not_bigint: "stringifyBigInt v \<noteq> JBigInt i"
  by (cases v) (simp_all add: stringifyBigInt_def)

lemma stringifyBigInt_other: "\<forall>i. v \<noteq> JBigInt i \<Longrightarrow> stringifyBigInt v = v"
  by (cases v) (simp_all add: stringifyBigInt_def)

lemma getProp_own:
  "distinct (map fst r) \<Longrightarrow> (k, v) \<in> set r \<Longrightarrow> getProp r k = v"
  by (simp add: getProp_def)

lemma sanitizeColumnName_clean:
  "list_all (\<lambda>c. \<not> isWhiteSpace c) k \<Longrightarrow> sanitizeColumnName k = k"
  by (simp add: sanitizeColumnName_def replaceWhitespaceRuns_clean list_all_iff)

lemma returnData_clean_keys:
  assumes "distinct (map fst r)" and "list_all (\<lambda>k. list_all (\<lambda>c. \<not> isWhiteSpace c) k) (map fst r)"
  shows "map (\<lambda>col. stringifyBigInt (getProp r col)) (map sanitizeColumnName (objectKeys r)) =
         map (\<lambda>(k, v). stringifyBigInt v) r"
proof -
  have cell: "stringifyBigInt (getProp r (sanitizeColumnName k)) = stringifyBigInt v"
    if in_r: "(k, v) \<in> set r" for k v
  proof -
    from in_r assms(2) have "list_all (\<lambda>c. \<not> isWhiteSpace c) k"
      by (force simp: list_all_iff)
    then have "sanitizeColumnName k = k"
      by (rule sanitizeColumnName_clean)
    with getProp_own [OF assms(1) in_r] show ?thesis
      by simp
  qed
  have "map (\<lambda>col. stringifyBigInt (getProp r col)) (map sanitizeColumnName (objectKeys r)) =
        map (\<lambda>x. stringifyBigInt (getProp r (sanitizeColumnName (fst x)))) r"
    by (simp add: objectKeys_def o_def)
  also have "\<dots> = map (\<lambda>(k, v). stringifyBigInt v) r"
  proof (rule map_cong [OF refl])
    fix x
    assume "x \<in> set r"
    then have "(fst x, snd x) \<in> set r"
      by simp
    from cell [OF this] show "stringifyBigInt (getProp r (sanitizeColumnName (fst x))) =
        (case x of (k, v) \<Rightarrow> stringifyBigInt v)"
      by (simp add: case_prod_unfold)
  qed
  finally show ?thesis .
qed

lemma returnData_no_bigint:
  "r \<in> set (rows (returnData off lmt tot cols dataRows)) \<Longrightarrow> JBigInt i \<notin> set r"
  by (auto simp: returnData_def stringifyBigInt_not_bigint [THEN not_sym])

lemma unescapeQuotes_other:
  "c \<noteq> 0x27 \<Longrightarrow> unescapeQuotes (c # cs) = map_option ((#) c) (unescapeQuotes cs)"
  by (cases cs) simp_all

lemma unescapeQuotes_escapeQuotes: "unescapeQuotes (escapeQuotes s) = Some s"
proof (induction s)
  case Nil
  show ?case by (simp add: escapeQuotes_def)
next
  case (Cons c s)
  then have ih: "unescapeQuotes (concat (map (\<lambda>c. if c = 0x27 then [0x27, 0x27] else [c]) s)) = Some s"
    by (simp add: escapeQuotes_def)
  show ?case
  proof (cases "c = 0x27")
    case True
    with ih show ?thesis by (simp add: escapeQuotes_def)
  next
    case False
    with ih show ?thesis
      by (simp add: escapeQuotes_def unescapeQuotes_other)
  qed
qed

text \<open>
  Claim C6 on a concrete input.  The first data row of a delimited file with the header
  \<^verbatim>\<open>order id\<close> holds the wide integer 9007199254740993.  The engine returns the row
  \<^verbatim>\<open>{"order id": 9007199254740993n}\<close>; the page has the column \<^verbatim>\<open>order_id\<close>, and its
  cell is read as \<^verbatim>\<open>row["order_id"]\<close>, which is \<^verbatim>\<open>undefined\<close>: the wide integer does not
  reach the page, neither as a decimal string nor otherwise.
\<close>

theorem wide_integer_under_spaced_key:
  "afterRegister demoEngine 0 1 None None ([[(js ''order id'', JBigInt 9007199254740993)]], []) =
     (Inr \<lparr>columns = [js ''order_id''], rows = [[JUndefined]], offset = 0, limit = 1,
           total = JNum (Fin 1)\<rparr>,
      [[(js ''order id'', JBigInt 9007199254740993)]],
      [countProbe, countQuery, describeQuery, plainQuery 1 0])"
  by (simp add: text_defs run_defs)

text \<open>
  Claim C4 on a concrete input.  The table read from a delimited file has the single
  column \<^verbatim>\<open>first name\<close>.  For the search \<^verbatim>\<open>Ann\<close> the describe probe reports that
  column, the loader sanitizes the reported name, and the statement it sends filters on
  \<^verbatim>\<open>first_name\<close>, which is not a column of the table.  (The example engine answers a
  statement it does not know with an error, as the real engine answers a statement that
  names a missing column.)
\<close>

theorem search_filter_names_missing_column:
  "afterRegister demoEngine 0 100 (Some (js ''Ann'')) None
     ([[(js ''first name'', JStr (js ''Ann''))]], []) =
     (Inl (Rejected (Host (SysError None (js ''Parser Error'')))),
      [[(js ''first name'', JStr (js ''Ann''))]],
      [countProbe, describeQuery, countQuery, describeQuery,
       js ''SELECT * FROM data WHERE first_name LIKE '' @ [0x27, 0x25] @ js ''Ann'' @ [0x25, 0x27] @
       js '' LIMIT 100 OFFSET 0'']) \<and>
   js ''first_name'' \<notin> set (objectKeys [(js ''first name'', JStr (js ''Ann''))])"
  by (simp add: text_defs run_defs join.simps)

section \<open>Saving markup; falsy cells in staged tables\<close>

text \<open>
  Claim C7.  When the extension of the destination makes \<^verbatim>\<open>detectFileType\<close> answer
  \<^verbatim>\<open>xml\<close>, \<^verbatim>\<open>saveFileData\<close> fails with the error \<^verbatim>\<open>Unsupported file type for saving\<close>
  and the world after the call is the world before it: no writer has run, so the
  destination file is untouched.
\<close>

theorem save_markup_unsupported:
  "detectFileType filePath = Xml \<Longrightarrow>
   saveFileData H S filePath cols dataRows w =
     (Some (Error (js ''Unsupported file type for saving'')), w)"
  by (simp add: saveFileData_def)

lemma detectFileType_xml: "detectFileType (js ''/data/out.XML'') = Xml"
  by (simp add: detectFileType_def js_def extname_def toLowerCase_def)

theorem save_markup_unsupported_witness:
  "detectFileType (js ''/data/out.XML'') = Xml \<and>
   saveFileData demoHost demoSaveops (js ''/data/out.XML'') [js ''a''] [[JStr (js ''1'')]]
     [(js ''/data/out.XML'', js ''<r/>'')] =
   (Some (Error (js ''Unsupported file type for saving'')), [(js ''/data/out.XML'', js ''<r/>'')])"
  using save_markup_unsupported
      [of "js ''/data/out.XML''" demoHost demoSaveops "[js ''a'']" "[[JStr (js ''1'')]]"
          "[(js ''/data/out.XML'', js ''<r/>'')]"]
    detectFileType_xml
  by blast









section \<open>The total of a page\<close>

















section \<open>The statement that is run\<close>

lemma runData_sent_page:
  assumes "fst (runData onError E query off lmt tot c) = Inr p"
  shows "\<exists>ext. snd (snd (runData onError E query off lmt tot c)) = snd c @ [query] @ ext \<and>
           (ext = [] \<or> ext = [query @ js '' LIMIT 0''])"
proof -
  from runData_page [OF assms] obtain dataRows where
    a: "dataRows \<noteq> [] \<longrightarrow> snd (snd (runData onError E query off lmt tot c)) = snd c @ [query]"
    and b: "dataRows = [] \<longrightarrow>
      snd (snd (runData onError E query off lmt tot c)) = snd c @ [query, query @ js '' LIMIT 0'']"
    by blast
  show ?thesis
  proof (cases "dataRows = []")
    case True
    with b show ?thesis by simp
  next
    case False
    with a show ?thesis by simp
  qed
qed

lemma runQuery_ignores_search:
  "given sql \<Longrightarrow> runQuery E cols off lmt search' sql c = runQuery E cols off lmt search sql c"
  by (simp add: runQuery_def buildQuery_def)

lemma afterRegister_ignores_search:
  "given sql \<Longrightarrow> afterRegister E off lmt search' sql c = afterRegister E off lmt search sql c"
  by (simp add: afterRegister_def)

lemma runQuery_sent_page:
  assumes "fst (runQuery E cols off lmt search sql c) = Inr p"
  shows "\<exists>ext. snd (snd (runQuery E cols off lmt search sql c)) =
           snd c @ [countQuery, buildQuery quotedLikeCondition cols off lmt search sql] @ ext \<and>
           (ext = [] \<or> ext = [buildQuery quotedLikeCondition cols off lmt search sql @ js '' LIMIT 0''])"
proof -
  let ?Q = "buildQuery quotedLikeCondition cols off lmt search sql"
  from runQuery_runData [OF assms] obtain tot where
    eq: "runQuery E cols off lmt search sql c =
           runData (\<lambda>err. Error (js ''Hey! Dude please enter correct SQL..'')) E ?Q off lmt tot
             (snd (E countQuery (fst c)), snd c @ [countQuery])"
    by blast
  from assms have "fst (runData (\<lambda>err. Error (js ''Hey! Dude please enter correct SQL..'')) E ?Q off lmt tot
             (snd (E countQuery (fst c)), snd c @ [countQuery])) = Inr p"
    by (simp only: eq)
  from runData_sent_page [OF this] show ?thesis
    by (simp add: eq)
qed

lemma afterRegister_sent_page:
  assumes "fst (afterRegister E off lmt search sql c) = Inr p"
  shows "\<exists>cols ext.
           snd (snd (afterRegister E off lmt search sql c)) =
             snd c @ [countProbe] @ (if \<not> given sql \<and> given search then [describeQuery] else []) @
             [countQuery, describeQuery, buildQuery likeCondition cols off lmt search sql] @ ext \<and>
           (ext = [] \<or> ext = [buildQuery likeCondition cols off lmt search sql @ js '' LIMIT 0'']) \<and>
           (\<not> given sql \<and> given search \<longrightarrow>
              (\<exists>colRows. fst (E describeQuery (snd (E countProbe (fst c)))) = Inr colRows \<and>
                 describedColumns colRows = Some cols))"
proof -
  from afterRegister_page [OF assms] obtain cols cX where
    eq: "afterRegister E off lmt search sql c =
           executeQuery E (buildQuery likeCondition cols off lmt search sql) off lmt cX"
    and lg: "snd cX = snd c @ [countProbe] @ (if \<not> given sql \<and> given search then [describeQuery] else [])"
    and dc: "\<not> given sql \<and> given search \<longrightarrow>
              (\<exists>colRows. fst (E describeQuery (snd (E countProbe (fst c)))) = Inr colRows \<and>
                 describedColumns colRows = Some cols)"
    by blast
  let ?Q = "buildQuery likeCondition cols off lmt search sql"
  from assms have ex: "fst (executeQuery E ?Q off lmt cX) = Inr p"
    by (simp only: eq)
  from executeQuery_runData [OF ex] obtain tot where
    eq2: "executeQuery E ?Q off lmt cX =
       runData Host E ?Q off lmt tot
         (snd (E describeQuery (snd (E countQuery (fst cX)))), snd cX @ [countQuery, describeQuery])"
    by blast
  from ex have "fst (runData Host E ?Q off lmt tot
         (snd (E describeQuery (snd (E countQuery (fst cX)))), snd cX @ [countQuery, describeQuery])) = Inr p"
    by (simp only: eq2)
  from runData_sent_page [OF this] obtain ext where
    "snd (snd (runData Host E ?Q off lmt tot
         (snd (E describeQuery (snd (E countQuery (fst cX)))), snd cX @ [countQuery, describeQuery]))) =
       (snd cX @ [countQuery, describeQuery]) @ [?Q] @ ext"
    and e: "ext = [] \<or> ext = [?Q @ js '' LIMIT 0'']"
    by auto
  then have "snd (snd (afterRegister E off lmt search sql c)) =
             snd c @ [countProbe] @ (if \<not> given sql \<and> given search then [describeQuery] else []) @
             [countQuery, describeQuery, ?Q] @ ext"
    by (simp add: eq eq2 lg)
  with e dc show ?thesis
    by blast
qed

text \<open>
  Claim C2.  The statement a loader runs is chosen as follows: custom SQL that is not
  empty after trimming is taken as it is, with every run of white space collapsed to one
  space and the ends trimmed; otherwise a search that is not empty after trimming gives
  the \<^verbatim>\<open>LIKE\<close> filter over the columns; otherwise the plain
  \<^verbatim>\<open>SELECT * FROM data LIMIT <limit> OFFSET <offset>\<close>.  When a loader resolves with a
  page, that statement is the one sent to the engine after the count (and, for the files
  loaded by the engine itself, after the describe probes), followed at most by the same
  statement with \<^verbatim>\<open> LIMIT 0\<close>.  With custom SQL, the whole outcome of a load, the
  statements sent included, is the same for every search.
\<close>

theorem custom_sql_overrides_search:
  "(given sql \<longrightarrow>
      buildQuery condition cols off lmt search sql = trim (replaceWhitespaceRuns [0x20] (the sql))) \<and>
   (\<not> given sql \<and> given search \<longrightarrow>
      buildQuery condition cols off lmt search sql =
        js ''SELECT * FROM data WHERE '' @
        join (js '' OR '') (map (condition (escapeQuotes (trim (the search)))) cols) @
        js '' LIMIT '' @ natToString lmt @ js '' OFFSET '' @ natToString off) \<and>
   (\<not> given sql \<and> \<not> given search \<longrightarrow>
      buildQuery condition cols off lmt search sql =
        js ''SELECT * FROM data LIMIT '' @ natToString lmt @ js '' OFFSET '' @ natToString off) \<and>
   (fst (runQuery E cols off lmt search sql c) = Inr p \<longrightarrow>
      (\<exists>ext. snd (snd (runQuery E cols off lmt search sql c)) =
           snd c @ [countQuery, buildQuery quotedLikeCondition cols off lmt search sql] @ ext \<and>
           (ext = [] \<or> ext = [buildQuery quotedLikeCondition cols off lmt search sql @ js '' LIMIT 0'']))) \<and>
   (given sql \<longrightarrow> runQuery E cols off lmt search' sql c = runQuery E cols off lmt search sql c) \<and>
   (fst (afterRegister E off lmt search sql c') = Inr p' \<longrightarrow>
      (\<exists>cols' ext.
           snd (snd (afterRegister E off lmt search sql c')) =
             snd c' @ [countProbe] @ (if \<not> given sql \<and> given search then [describeQuery] else []) @
             [countQuery, describeQuery, buildQuery likeCondition cols' off lmt search sql] @ ext \<and>
           (ext = [] \<or> ext = [buildQuery likeCondition cols' off lmt search sql @ js '' LIMIT 0'']) \<and>
           (\<not> given sql \<and> given search \<longrightarrow>
              (\<exists>colRows. fst (E describeQuery (snd (E countProbe (fst c')))) = Inr colRows \<and>
                 describedColumns colRows = Some cols')))) \<and>
   (given sql \<longrightarrow> afterRegister E off lmt search' sql c' = afterRegister E off lmt search sql c')"
proof (intro conjI impI)
  assume "fst (runQuery E cols off lmt search sql c) = Inr p"
  then show "\<exists>ext. snd (snd (runQuery E cols off lmt search sql c)) =
           snd c @ [countQuery, buildQuery quotedLikeCondition cols off lmt search sql] @ ext \<and>
           (ext = [] \<or> ext = [buildQuery quotedLikeCondition cols off lmt search sql @ js '' LIMIT 0''])"
    by (rule runQuery_sent_page)
next
  assume "fst (afterRegister E off lmt search sql c') = Inr p'"
  then show "\<exists>cols' ext.
           snd (snd (afterRegister E off lmt search sql c')) =
             snd c' @ [countProbe] @ (if \<not> given sql \<and> given search then [describeQuery] else []) @
             [countQuery, describeQuery, buildQuery likeCondition cols' off lmt search sql] @ ext \<and>
           (ext = [] \<or> ext = [buildQuery likeCondition cols' off lmt search sql @ js '' LIMIT 0'']) \<and>
           (\<not> given sql \<and> given search \<longrightarrow>
              (\<exists>colRows. fst (E describeQuery (snd (E countProbe (fst c')))) = Inr colRows \<and>
                 describedColumns colRows = Some cols'))"
    by (rule afterRegister_sent_page)
qed (simp_all add: buildQuery_def customQuery_def searchQuery_def plainQuery_def needleOf_def
       runQuery_ignores_search afterRegister_ignores_search)

theorem custom_sql_overrides_search_witness:
  "given (Some (js ''  SELECT  *  FROM data '')) \<and> given (Some (js ''SELECT * FROM data'')) \<and>
   given (Some (js ''Bob'')) \<and> \<not> given None \<and>
   buildQuery quotedLikeCondition [js ''name'', js ''age''] 0 1 (Some (js ''Bob''))
     (Some (js ''  SELECT  *  FROM data '')) = js ''SELECT * FROM data'' \<and>
   buildQuery quotedLikeCondition [js ''name'', js ''age''] 0 1 (Some (js ''Bob'')) None =
     js ''SELECT * FROM data WHERE '' @
     [0x22] @ js ''name'' @ [0x22] @ js '' LIKE '' @ [0x27, 0x25] @ js ''Bob'' @ [0x25, 0x27] @
     js '' OR '' @
     [0x22] @ js ''age'' @ [0x22] @ js '' LIKE '' @ [0x27, 0x25] @ js ''Bob'' @ [0x25, 0x27] @
     js '' LIMIT 1 OFFSET 0'' \<and>
   buildQuery quotedLikeCondition [js ''name'', js ''age''] 0 1 None None =
     js ''SELECT * FROM data LIMIT 1 OFFSET 0'' \<and>
   fst (runQuery demoEngine [js ''name'', js ''age''] 0 1 (Some (js ''Bob''))
          (Some (js ''SELECT * FROM data'')) (demoTable, [])) =
     Inr \<lparr>columns = [js ''name'', js ''age''],
           rows = [[JStr (js ''Ann''), JStr (js ''31'')], [JStr (js ''Bob''), JStr (js ''45'')]],
           offset = 0, limit = 1, total = JNum (Fin 2)\<rparr> \<and>
   fst (afterRegister demoEngine 0 1 (Some (js ''Bob'')) (Some (js ''SELECT * FROM data''))
          (demoTable, [])) =
     Inr \<lparr>columns = [js ''name'', js ''age''],
           rows = [[JStr (js ''Ann''), JStr (js ''31'')], [JStr (js ''Bob''), JStr (js ''45'')]],
           offset = 0, limit = 1, total = JNum (Fin 2)\<rparr> \<and>
   runQuery demoEngine [js ''name'', js ''age''] 0 1 None (Some (js ''SELECT * FROM data''))
     (demoTable, []) =
   runQuery demoEngine [js ''name'', js ''age''] 0 1 (Some (js ''Bob''))
     (Some (js ''SELECT * FROM data'')) (demoTable, []) \<and>
   afterRegister demoEngine 0 1 None (Some (js ''SELECT * FROM data'')) (demoTable, []) =
   afterRegister demoEngine 0 1 (Some (js ''Bob'')) (Some (js ''SELECT * FROM data''))
     (demoTable, [])"
proof -
  let ?P2 = "\<lparr>columns = [js ''name'', js ''age''],
           rows = [[JStr (js ''Ann''), JStr (js ''31'')], [JStr (js ''Bob''), JStr (js ''45'')]],
           offset = 0, limit = 1, total = JNum (Fin 2)\<rparr>"
  let ?cols = "[js ''name'', js ''age'']"
  let ?raw = "Some (js ''SELECT * FROM data'')"
  have G1: "given (Some (js ''  SELECT  *  FROM data ''))"
    by (simp add: given_def trim_def js_def isWhiteSpace_def)
  have G2: "given ?raw"
    by (simp add: given_def trim_def js_def isWhiteSpace_def)
  have G3: "given (Some (js ''Bob''))"
    by (simp add: given_def trim_def js_def isWhiteSpace_def)
  have G4: "\<not> given None"
    by (simp add: given_def)
  have A: "fst (runQuery demoEngine ?cols 0 1 (Some (js ''Bob'')) ?raw (demoTable, [])) = Inr ?P2"
    by (simp only: demo_sheet_raw fst_conv)
  have B: "fst (afterRegister demoEngine 0 1 (Some (js ''Bob'')) ?raw (demoTable, [])) = Inr ?P2"
    by (simp only: demo_raw fst_conv)
  note T1 = custom_sql_overrides_search
    [of "Some (js ''  SELECT  *  FROM data '')" quotedLikeCondition ?cols 0 1 "Some (js ''Bob'')"]
  from T1 [THEN conjunct1, THEN mp, OF G1]
  have Q1: "buildQuery quotedLikeCondition ?cols 0 1 (Some (js ''Bob''))
     (Some (js ''  SELECT  *  FROM data '')) = js ''SELECT * FROM data''"
    by (simp add: trim_def js_def isWhiteSpace_def)
  note T2 = custom_sql_overrides_search [of None quotedLikeCondition ?cols 0 1 "Some (js ''Bob'')"]
  from T2 [THEN conjunct2, THEN conjunct1, THEN mp, OF conjI [OF G4 G3]]
  have Q2: "buildQuery quotedLikeCondition ?cols 0 1 (Some (js ''Bob'')) None =
     js ''SELECT * FROM data WHERE '' @
     [0x22] @ js ''name'' @ [0x22] @ js '' LIKE '' @ [0x27, 0x25] @ js ''Bob'' @ [0x25, 0x27] @
     js '' OR '' @
     [0x22] @ js ''age'' @ [0x22] @ js '' LIKE '' @ [0x27, 0x25] @ js ''Bob'' @ [0x25, 0x27] @
     js '' LIMIT 1 OFFSET 0''"
    by (simp add: trim_def js_def isWhiteSpace_def escapeQuotes_def quotedLikeCondition_def
          natToString.simps)
  note T3 = custom_sql_overrides_search [of None quotedLikeCondition ?cols 0 1 None]
  from T3 [THEN conjunct2, THEN conjunct2, THEN conjunct1, THEN mp, OF conjI [OF G4 G4]]
  have Q3: "buildQuery quotedLikeCondition ?cols 0 1 None None = js ''SELECT * FROM data LIMIT 1 OFFSET 0''"
    by (simp add: js_def natToString.simps)
  note T4 = custom_sql_overrides_search
    [of ?raw quotedLikeCondition ?cols 0 1 "Some (js ''Bob'')" demoEngine "(demoTable, [])" ?P2 None
        "(demoTable, [])" ?P2]
  from T4 G2 have I1: "runQuery demoEngine ?cols 0 1 None ?raw (demoTable, []) =
      runQuery demoEngine ?cols 0 1 (Some (js ''Bob'')) ?raw (demoTable, [])"
    by blast
  from T4 G2 have I2: "afterRegister demoEngine 0 1 None ?raw (demoTable, []) =
      afterRegister demoEngine 0 1 (Some (js ''Bob'')) ?raw (demoTable, [])"
    by blast
  from G1 G2 G3 G4 Q1 Q2 Q3 A B I1 I2 show ?thesis
    by blast
qed

section \<open>Retrying and finalizing a save\<close>

lemma retryTrace_Nil: "retryTrace delayMs first [] final = [Attempt final]"
  by (simp add: retryTrace_def)

lemma retryTrace_Cons:
  "retryTrace delayMs first (e # errs) final =
     Attempt (Some e) # Delay (delayMs * 2 ^ first) # retryTrace delayMs (Suc first) errs final"
proof -
  have "[first..<first + length (e # errs)] = first # [Suc first..<Suc first + length errs]"
    by (subst upt_rec) simp
  then show ?thesis
    by (simp add: retryTrace_def)
qed

lemma withRetryFrom_trace:
  assumes "1 \<le> attempt" and "attempt \<le> maxAttempts"
  shows "\<exists>errs.
           snd (snd (withRetryFrom operation maxAttempts delayMs onRetry setTimeout attempt w)) =
             retryTrace delayMs (attempt - 1) errs
               (fst (withRetryFrom operation maxAttempts delayMs onRetry setTimeout attempt w)) \<and>
           list_all isLockError errs \<and> attempt + length errs \<le> maxAttempts \<and>
           (\<forall>e. fst (withRetryFrom operation maxAttempts delayMs onRetry setTimeout attempt w) = Some e \<and>
                isLockError e \<longrightarrow> attempt + length errs = maxAttempts)"
  using assms
proof (induction operation maxAttempts delayMs onRetry setTimeout attempt w rule: withRetryFrom.induct)
  case (1 operation maxAttempts delayMs onRetry setTimeout attempt w)
  let ?run = "withRetryFrom operation maxAttempts delayMs onRetry setTimeout attempt w"
  obtain r w1 where op: "operation w = (r, w1)"
    by (cases "operation w")
  show ?case
  proof (cases r)
    case None
    with op "1.prems" have "?run = (None, w1, [Attempt None])"
      by (simp add: withRetryFrom.simps)
    then show ?thesis
      using "1.prems" by (intro exI [of _ "[]"]) (simp add: retryTrace_Nil)
  next
    case (Some err)
    show ?thesis
    proof (cases "attempt = maxAttempts \<or> \<not> isLockError err")
      case True
      with op Some "1.prems" have "?run = (Some err, w1, [Attempt (Some err)])"
        by (simp add: withRetryFrom.simps)
      then show ?thesis
        using "1.prems" True by (intro exI [of _ "[]"]) (auto simp: retryTrace_Nil)
    next
      case False
      let ?w2 = "case onRetry of None \<Rightarrow> w1 | Some f \<Rightarrow> f attempt err w1"
      let ?w3 = "setTimeout (delayMs * 2 ^ (attempt - 1)) ?w2"
      let ?next = "withRetryFrom operation maxAttempts delayMs onRetry setTimeout (attempt + 1) ?w3"
      from False "1.prems" have le: "1 \<le> attempt + 1" "attempt + 1 \<le> maxAttempts"
        by simp_all
      have le0: "attempt \<le> maxAttempts"
        using "1.prems" by simp
      from "1.IH" [OF le0 op [symmetric] Some False refl refl le]
      obtain errs where
        tr: "snd (snd ?next) = retryTrace delayMs (attempt + 1 - 1) errs (fst ?next)"
        and lk: "list_all isLockError errs"
        and bd: "attempt + 1 + length errs \<le> maxAttempts"
        and ex: "\<forall>e. fst ?next = Some e \<and> isLockError e \<longrightarrow> attempt + 1 + length errs = maxAttempts"
        by blast
      from op Some False "1.prems" have run: "?run =
          (fst ?next, fst (snd ?next),
           Attempt (Some err) # Delay (delayMs * 2 ^ (attempt - 1)) # snd (snd ?next))"
        by (subst withRetryFrom.simps) (simp add: Let_def split: prod.splits)
      have "snd (snd ?run) = retryTrace delayMs (attempt - 1) (err # errs) (fst ?run)"
        using tr "1.prems" (1) by (simp add: run retryTrace_Cons)
      moreover from False lk have "list_all isLockError (err # errs)"
        by simp
      moreover from bd have "attempt + length (err # errs) \<le> maxAttempts"
        by simp
      moreover from ex have "\<forall>e. fst ?run = Some e \<and> isLockError e \<longrightarrow>
          attempt + length (err # errs) = maxAttempts"
        by (simp add: run)
      ultimately show ?thesis
        by blast
    qed
  qed
qed

text \<open>
  Claim C8 fails as stated: finalizing a save does not retry.  In the example the
  destination is locked for one more attempt to open it; the handler checks the lock
  once, reports that the file is still locked and stops, with the destination and the
  temporary file as they were, although a second attempt would have found the file free.
\<close>

theorem finalize_gives_up_after_one_lock_check:
  "finalizeSave demoFileops (js ''/data/t.csv'') (Some (js ''/data/t.csv.tmp'')) [js ''a'']
     [[JStr (js ''2'')]] demoWorld0 =
     ([PostError (js ''File is still locked. Please close it in the other program and try again.'')],
      \<lparr>files = [(js ''/data/t.csv'', js ''old''), (js ''/data/t.csv.tmp'', js ''new'')],
       lockedFor = 0, opens = 1\<rparr>)"
  by (simp add: finalizeSave_def demoFileops_def demoWorld0_def isLockError_def js_def)

text \<open>
  Claim C8, amended.  The helper \<^verbatim>\<open>withRetry\<close>, given a budget of at least one attempt,
  makes at most \<open>maxAttempts\<close> attempts; every attempt that is followed by another one
  failed with a lock error (code \<^verbatim>\<open>EBUSY\<close>, \<^verbatim>\<open>EPERM\<close> or \<^verbatim>\<open>EACCES\<close>) and is
  followed by a delay of \<open>delayMs\<close> times two to the number of failures before it; the
  result of the last attempt is the result of the helper, so any other error is thrown at
  once, and a lock error is thrown only when the budget is used up.  The handler of
  \<^verbatim>\<open>finalizeSave\<close> does not call the helper: when its single lock check reports a lock
  error it posts the message that the file is still locked and renames nothing, so the
  world is the one left by the check.
\<close>

theorem retry_helper_and_single_lock_check:
  "(1 \<le> maxAttempts \<longrightarrow>
      (\<exists>errs.
         snd (snd (withRetry operation maxAttempts delayMs onRetry setTimeout w)) =
           retryTrace delayMs 0 errs (fst (withRetry operation maxAttempts delayMs onRetry setTimeout w)) \<and>
         list_all isLockError errs \<and> Suc (length errs) \<le> maxAttempts \<and>
         (\<forall>e. fst (withRetry operation maxAttempts delayMs onRetry setTimeout w) = Some e \<and>
              isLockError e \<longrightarrow> Suc (length errs) = maxAttempts))) \<and>
   (tempFile \<noteq> [] \<and> stat F tempFile w0 = (None, w1) \<and>
    openReadWrite F filePath w1 = (Some err, w2) \<and> isLockError err \<longrightarrow>
      finalizeSave F filePath (Some tempFile) msgColumns msgRows w0 =
        ([PostError (js ''File is still locked. Please close it in the other program and try again.'')],
         w2))"
proof (intro conjI impI)
  assume "1 \<le> maxAttempts"
  from withRetryFrom_trace [OF order_refl this, of operation delayMs onRetry setTimeout w]
  show "\<exists>errs.
         snd (snd (withRetry operation maxAttempts delayMs onRetry setTimeout w)) =
           retryTrace delayMs 0 errs (fst (withRetry operation maxAttempts delayMs onRetry setTimeout w)) \<and>
         list_all isLockError errs \<and> Suc (length errs) \<le> maxAttempts \<and>
         (\<forall>e. fst (withRetry operation maxAttempts delayMs onRetry setTimeout w) = Some e \<and>
              isLockError e \<longrightarrow> Suc (length errs) = maxAttempts)"
    by (simp add: withRetry_def)
next
  assume "tempFile \<noteq> [] \<and> stat F tempFile w0 = (None, w1) \<and>
    openReadWrite F filePath w1 = (Some err, w2) \<and> isLockError err"
  then show "finalizeSave F filePath (Some tempFile) msgColumns msgRows w0 =
        ([PostError (js ''File is still locked. Please close it in the other program and try again.'')],
         w2)"
    by (simp add: finalizeSave_def)
qed

lemma demo_retry:
  "withRetry demoOperation 10 500 None (\<lambda>ms w. w) (demoWorld0\<lparr>lockedFor := 2\<rparr>) =
     (None,
      \<lparr>files = [(js ''/data/t.csv'', js ''old''), (js ''/data/t.csv.tmp'', js ''new'')],
       lockedFor = 0, opens = 3\<rparr>,
      [Attempt (Some (SysError (Some (js ''EBUSY'')) (js ''resource busy or locked''))), Delay 500,
       Attempt (Some (SysError (Some (js ''EBUSY'')) (js ''resource busy or locked''))), Delay 1000,
       Attempt None])"
  by (simp add: withRetry_def withRetryFrom.simps demoOperation_def demoFileops_def demoWorld0_def
        isLockError_def js_def)

theorem retry_helper_and_single_lock_check_witness:
  "(1::nat) \<le> 10 \<and>
   withRetry demoOperation 10 500 None (\<lambda>ms w. w) (demoWorld0\<lparr>lockedFor := 2\<rparr>) =
     (None,
      \<lparr>files = [(js ''/data/t.csv'', js ''old''), (js ''/data/t.csv.tmp'', js ''new'')],
       lockedFor = 0, opens = 3\<rparr>,
      [Attempt (Some (SysError (Some (js ''EBUSY'')) (js ''resource busy or locked''))), Delay 500,
       Attempt (Some (SysError (Some (js ''EBUSY'')) (js ''resource busy or locked''))), Delay 1000,
       Attempt None]) \<and>
   (\<exists>errs. [Attempt (Some (SysError (Some (js ''EBUSY'')) (js ''resource busy or locked''))), Delay 500,
       Attempt (Some (SysError (Some (js ''EBUSY'')) (js ''resource busy or locked''))), Delay 1000,
       Attempt None] = retryTrace 500 0 errs None \<and> list_all isLockError errs \<and>
       Suc (length errs) \<le> 10) \<and>
   js ''/data/t.csv.tmp'' \<noteq> [] \<and>
   stat demoFileops (js ''/data/t.csv.tmp'') demoWorld0 = (None, demoWorld0) \<and>
   openReadWrite demoFileops (js ''/data/t.csv'') demoWorld0 =
     (Some (SysError (Some (js ''EBUSY'')) (js ''resource busy or locked'')),
      demoWorld0\<lparr>lockedFor := 0, opens := 1\<rparr>) \<and>
   isLockError (SysError (Some (js ''EBUSY'')) (js ''resource busy or locked'')) \<and>
   finalizeSave demoFileops (js ''/data/t.csv'') (Some (js ''/data/t.csv.tmp'')) [js ''a'']
     [[JStr (js ''2'')]] demoWorld0 =
     ([PostError (js ''File is still locked. Please close it in the other program and try again.'')],
      demoWorld0\<lparr>lockedFor := 0, opens := 1\<rparr>)"
proof -
  let ?busy = "SysError (Some (js ''EBUSY'')) (js ''resource busy or locked'')"
  have A: "(1::nat) \<le> 10"
    by simp
  have N: "js ''/data/t.csv.tmp'' \<noteq> []"
    by (simp add: js_def)
  have S: "stat demoFileops (js ''/data/t.csv.tmp'') demoWorld0 = (None, demoWorld0)"
    by (simp add: demoFileops_def demoWorld0_def js_def)
  have O: "openReadWrite demoFileops (js ''/data/t.csv'') demoWorld0 =
      (Some ?busy, demoWorld0\<lparr>lockedFor := 0, opens := 1\<rparr>)"
    by (simp add: demoFileops_def demoWorld0_def)
  have L: "isLockError ?busy"
    by (simp add: isLockError_def)
  note T = retry_helper_and_single_lock_check
    [of 10 demoOperation 500 None "\<lambda>ms w. w" "demoWorld0\<lparr>lockedFor := 2\<rparr>"
        "js ''/data/t.csv.tmp''" demoFileops demoWorld0 demoWorld0 "js ''/data/t.csv''" ?busy
        "demoWorld0\<lparr>lockedFor := 0, opens := 1\<rparr>" "[js ''a'']" "[[JStr (js ''2'')]]"]
  from T [THEN conjunct1, THEN mp, OF A]
  have R: "\<exists>errs. [Attempt (Some ?busy), Delay 500, Attempt (Some ?busy), Delay 1000, Attempt None] =
       retryTrace 500 0 errs None \<and> list_all isLockError errs \<and> Suc (length errs) \<le> 10"
    by (simp add: demo_retry)
  from T [THEN conjunct2, THEN mp, OF conjI [OF N conjI [OF S conjI [OF O L]]]]
  have F: "finalizeSave demoFileops (js ''/data/t.csv'') (Some (js ''/data/t.csv.tmp'')) [js ''a'']
     [[JStr (js ''2'')]] demoWorld0 =
     ([PostError (js ''File is still locked. Please close it in the other program and try again.'')],
      demoWorld0\<lparr>lockedFor := 0, opens := 1\<rparr>)" .
  from A demo_retry R N S O L F show ?thesis
    by blast
qed

end
